theory Spec2Isabelle
  imports Complex_Main
begin

section \<open>The SUMO TraCI bridge: state, environment and lifecycle operations\<close>

text \<open>
  The development embeds \<^verbatim>\<open>backend/python-bridge/sumo_bridge.py\<close> (class
  \<^verbatim>\<open>SUMOBridge\<close>) and the lifecycle methods it shares with
  \<^verbatim>\<open>sumo_bridge_fixed.py\<close>.

  Conventions.
  \<^item> An exception is represented by its class and its text \<^verbatim>\<open>str(e)\<close>; the handlers
    of the source catch \<^verbatim>\<open>Exception\<close>, log the class and the text and test the text
    only. A call that may raise returns \<open>exn + 'a\<close> (\<open>Inl\<close> the exception).
  \<^item> Everything the bridge does not compute itself (answers of the TraCI library, the
    wall clock, the outcome of joining a thread or waiting for a process) is an explicit
    environment argument of the operation that asks for it.
  \<^item> An operation is executed without interference of the other threads of the process:
    the model interleaves the request handlers and the polling thread at the granularity
    of whole operations.
  \<^item> Python floats are modelled by reals; strings are ASCII.
\<close>

subsection \<open>Exceptions and replies\<close>

text \<open>
  The classes of the exceptions that reach the bridge: \<^verbatim>\<open>traci.FatalTraCIError\<close> (the
  session is gone), \<^verbatim>\<open>traci.TraCIException\<close> (the engine rejects a query or a
  command), an error of the socket (\<^verbatim>\<open>BrokenPipeError\<close>, \<^verbatim>\<open>ConnectionResetError\<close>),
  \<^verbatim>\<open>FileNotFoundError\<close>, and any other exception.
\<close>

datatype exn_class = FatalTraCIError | TraCIException | SocketError | FileNotFoundError | OtherException

datatype exn = Exn (class_of: exn_class) (text_of: string)

type_synonym 'a reply = "exn + 'a"

subsection \<open>Threads, processes and the world outside the bridge object\<close>

text \<open>
  A \<^verbatim>\<open>threading.Thread\<close> object is observed through \<^verbatim>\<open>is_alive()\<close> only.
  A \<^verbatim>\<open>subprocess.Popen\<close> handle is identified by its pid.
\<close>

datatype thread = Thread (is_alive: bool)

type_synonym process = nat

datatype signal = SIGTERM | SIGKILL

datatype traci_call =
    TClose
  | TStart "string list"
  | TSimulationStep
  | TGetTime
  | TGetLoadedNumber
  | TGetDepartedNumber
  | TGetVehicleIDList
  | TGetProgram string
  | TSetRedYellowGreenState string string

text \<open>
  The world holds what the request handlers read and change outside the bridge object:
  the process-wide working directory, the directories into which the process can change
  at the moment (a \<^verbatim>\<open>chdir\<close> into any other path raises), the TraCI calls the
  handlers have issued, the signals sent to engine processes and the number of threads
  started.
\<close>

record world =
  cwd :: string
  dirs :: "string set"
  traci_log :: "traci_call list"
  signals :: "(process \<times> signal) list"
  threads_started :: nat

definition traci_issue :: "traci_call \<Rightarrow> 'w world_scheme \<Rightarrow> 'w world_scheme" where
  "traci_issue c w = w\<lparr>traci_log := traci_log w @ [c]\<rparr>"

subsection \<open>The fields common to both bridge classes\<close>

text \<open>
  \<^verbatim>\<open>__init__\<close> of both classes sets \<^verbatim>\<open>connected\<close>, \<^verbatim>\<open>simulation_running\<close>,
  \<^verbatim>\<open>sumo_process\<close>, \<^verbatim>\<open>update_thread\<close> and \<^verbatim>\<open>stop_updates\<close>. The lifecycle
  methods touch these fields only, so they are defined on the record scheme and apply to
  both classes.
\<close>

record bridge_core =
  connected :: bool
  simulation_running :: bool
  sumo_process :: "process option"
  update_thread :: "thread option"
  stop_updates :: bool

subsection \<open>Starting and stopping the update thread\<close>

text \<open>
  \<^verbatim>\<open>
  def start_data_updates(self):
      if self.update_thread is None or not self.update_thread.is_alive():
          self.stop_updates = False
          self.update_thread = threading.Thread(target=self.update_data_loop)
          self.update_thread.daemon = True
          self.update_thread.start()
  \<close>
\<close>

definition thread_running :: "'a bridge_core_scheme \<Rightarrow> bool" where
  "thread_running s = (case update_thread s of None \<Rightarrow> False | Some t \<Rightarrow> is_alive t)"

definition start_data_updates ::
  "'w world_scheme \<Rightarrow> 'a bridge_core_scheme \<Rightarrow> 'w world_scheme \<times> 'a bridge_core_scheme" where
  "start_data_updates w s =
     (if update_thread s = None \<or> \<not> thread_running s
      then (w\<lparr>threads_started := Suc (threads_started w)\<rparr>,
            s\<lparr>stop_updates := False, update_thread := Some (Thread True)\<rparr>)
      else (w, s))"

text \<open>
  \<^verbatim>\<open>
  def stop_data_updates(self):
      self.stop_updates = True
      if self.update_thread and self.update_thread.is_alive():
          self.update_thread.join(timeout=2)
  \<close>
  The argument \<open>exits\<close> tells whether the thread ends within the two seconds of the join.
\<close>

definition stop_data_updates :: "bool \<Rightarrow> 'a bridge_core_scheme \<Rightarrow> 'a bridge_core_scheme" where
  "stop_data_updates exits s =
     (let s1 = s\<lparr>stop_updates := True\<rparr>
      in if thread_running s1 then s1\<lparr>update_thread := Some (Thread (\<not> exits))\<rparr> else s1)"

subsection \<open>Closing the session\<close>

text \<open>
  \<^verbatim>\<open>
  def disconnect_from_sumo(self):
      try:
          self.stop_data_updates()
          if self.connected:
              traci.close()
              self.connected = False
              self.simulation_running = False
      except Exception as e:
          logger.error(...)
  \<close>
\<close>

record disconnect_env =
  join_exits :: bool
  close_reply :: "unit reply"

definition disconnect_from_sumo ::
  "disconnect_env \<Rightarrow> 'w world_scheme \<Rightarrow> 'a bridge_core_scheme
     \<Rightarrow> 'w world_scheme \<times> 'a bridge_core_scheme" where
  "disconnect_from_sumo e w s =
     (let s1 = stop_data_updates (join_exits e) s
      in if connected s1
         then (case close_reply e of
                 Inl x \<Rightarrow> (traci_issue TClose w, s1)
               | Inr u \<Rightarrow> (traci_issue TClose w,
                           s1\<lparr>connected := False, simulation_running := False\<rparr>))
         else (w, s1))"

subsection \<open>Stopping the engine process\<close>

text \<open>
  \<^verbatim>\<open>
  def stop_sumo_process(self):
      try:
          if self.connected:
              self.disconnect_from_sumo()
          if self.sumo_process:
              self.sumo_process.terminate()
              try:
                  self.sumo_process.wait(timeout=10)
              except subprocess.TimeoutExpired:
                  self.sumo_process.kill()
                  self.sumo_process.wait()
              self.sumo_process = None
      except Exception as e:
          logger.error(...)
  \<close>
  An exception of \<^verbatim>\<open>terminate\<close>, \<^verbatim>\<open>kill\<close> or a \<^verbatim>\<open>wait\<close> other than the
  timeout leaves the method through the outer handler, with the handle still set.
\<close>

datatype wait_result = Exited | TimeoutExpired | WaitError exn

record stop_env =
  disc :: disconnect_env
  terminate_reply :: "unit reply"
  wait_reply :: wait_result
  kill_reply :: "unit reply"
  wait_again_reply :: "unit reply"

definition send_signal :: "process \<Rightarrow> signal \<Rightarrow> 'w world_scheme \<Rightarrow> 'w world_scheme" where
  "send_signal p sg w = w\<lparr>signals := signals w @ [(p, sg)]\<rparr>"

definition terminate_process ::
  "stop_env \<Rightarrow> process \<Rightarrow> 'w world_scheme \<Rightarrow> 'a bridge_core_scheme
     \<Rightarrow> 'w world_scheme \<times> 'a bridge_core_scheme" where
  "terminate_process e p w s =
     (case terminate_reply e of
        Inl x \<Rightarrow> (w, s)
      | Inr u \<Rightarrow>
          (let w1 = send_signal p SIGTERM w
           in case wait_reply e of
                Exited \<Rightarrow> (w1, s\<lparr>sumo_process := None\<rparr>)
              | WaitError x \<Rightarrow> (w1, s)
              | TimeoutExpired \<Rightarrow>
                  (case kill_reply e of
                     Inl x \<Rightarrow> (w1, s)
                   | Inr u \<Rightarrow>
                       (let w2 = send_signal p SIGKILL w1
                        in case wait_again_reply e of
                             Inl x \<Rightarrow> (w2, s)
                           | Inr u \<Rightarrow> (w2, s\<lparr>sumo_process := None\<rparr>)))))"

definition stop_sumo_process ::
  "stop_env \<Rightarrow> 'w world_scheme \<Rightarrow> 'a bridge_core_scheme
     \<Rightarrow> 'w world_scheme \<times> 'a bridge_core_scheme" where
  "stop_sumo_process e w s =
     (let (w1, s1) = (if connected s then disconnect_from_sumo (disc e) w s else (w, s))
      in case sumo_process s1 of
           None \<Rightarrow> (w1, s1)
         | Some p \<Rightarrow> terminate_process e p w1 s1)"

text \<open>
  The calls of a stop raise nothing when the close succeeds (if the bridge is connected)
  and the termination of the process succeeds (if there is a process), gracefully or
  after the kill.
\<close>

definition stop_raises_nothing :: "stop_env \<Rightarrow> 'a bridge_core_scheme \<Rightarrow> bool" where
  "stop_raises_nothing e s =
     ((connected s \<longrightarrow> close_reply (disc e) = Inr ()) \<and>
      (sumo_process s \<noteq> None \<longrightarrow>
         terminate_reply e = Inr () \<and>
         (wait_reply e = Exited \<or>
          wait_reply e = TimeoutExpired \<and> kill_reply e = Inr () \<and> wait_again_reply e = Inr ())))"


section \<open>The data of a tick\<close>

subsection \<open>Strings\<close>

text \<open>
  \<^verbatim>\<open>str.lower()\<close> on ASCII text, the substring test \<^verbatim>\<open>sub in s\<close>,
  \<^verbatim>\<open>s.startswith(':')\<close> and \<^verbatim>\<open>str(n)\<close> for a natural number.
\<close>

definition lower_char :: "char \<Rightarrow> char" where
  "lower_char c =
     (case map_of (zip ''ABCDEFGHIJKLMNOPQRSTUVWXYZ'' ''abcdefghijklmnopqrstuvwxyz'') c of
        Some d \<Rightarrow> d
      | None \<Rightarrow> c)"

definition lower :: "string \<Rightarrow> string" where
  "lower s = map lower_char s"

fun starts_with :: "string \<Rightarrow> string \<Rightarrow> bool" where
  "starts_with [] s = True"
| "starts_with (c # cs) [] = False"
| "starts_with (c # cs) (d # ds) = (c = d \<and> starts_with cs ds)"

fun str_in :: "string \<Rightarrow> string \<Rightarrow> bool" where
  "str_in sub [] = (sub = [])"
| "str_in sub (d # ds) = (starts_with sub (d # ds) \<or> str_in sub ds)"

definition is_internal_edge :: "string \<Rightarrow> bool" where
  "is_internal_edge edge_id = starts_with '':'' edge_id"

definition digit_char :: "nat \<Rightarrow> char" where
  "digit_char d = ''0123456789'' ! d"

function str_nat :: "nat \<Rightarrow> string" where
  "str_nat n = (if n < 10 then [digit_char n] else str_nat (n div 10) @ [digit_char (n mod 10)])"
  by pat_completeness auto
termination
  by (relation "measure id") auto

subsection \<open>Values returned by TraCI\<close>

text \<open>
  A numeric TraCI result reaches the bridge as a number, as a tuple or list of numbers, or
  as \<^verbatim>\<open>None\<close>; \<^verbatim>\<open>safe_float\<close> and \<^verbatim>\<open>safe_int\<close> distinguish exactly these.
  Every call site uses the default \<^verbatim>\<open>default\<close> value (0.0 and 0).
  \<^verbatim>\<open>
  def safe_float(self, value, default=0.0):
      try:
          if isinstance(value, (tuple, list)):
              if len(value) > 0: return float(value[0])
              else: return default
          elif value is None: return default
          else: return float(value)
      except (ValueError, TypeError, IndexError, OverflowError):
          return default
  \<close>
\<close>

datatype tval = TNum real | TSeq "real list" | TNone

fun safe_float :: "tval \<Rightarrow> real" where
  "safe_float (TSeq (x # xs)) = x"
| "safe_float (TSeq []) = 0"
| "safe_float TNone = 0"
| "safe_float (TNum r) = r"

text \<open>\<^verbatim>\<open>int(x)\<close> of a float truncates towards zero.\<close>

definition py_int :: "real \<Rightarrow> int" where
  "py_int r = (if 0 \<le> r then \<lfloor>r\<rfloor> else \<lceil>r\<rceil>)"

fun safe_int :: "tval \<Rightarrow> int" where
  "safe_int (TSeq (x # xs)) = py_int x"
| "safe_int (TSeq []) = 0"
| "safe_int TNone = 0"
| "safe_int (TNum r) = py_int r"

subsection \<open>What the engine answers between two steps\<close>

text \<open>
  The results of the nine per-vehicle queries of \<^verbatim>\<open>update_vehicles_data\<close>
  (\<^verbatim>\<open>getPosition\<close>, \<^verbatim>\<open>getSpeed\<close>, \<^verbatim>\<open>getAngle\<close>, \<^verbatim>\<open>getTypeID\<close>,
  \<^verbatim>\<open>getRoadID\<close>, \<^verbatim>\<open>getLaneID\<close>, \<^verbatim>\<open>getRoute\<close>, \<^verbatim>\<open>getWaitingTime\<close>,
  \<^verbatim>\<open>getDistance\<close>). They are issued inside one \<^verbatim>\<open>try\<close> whose handler skips the
  vehicle, so the reply for a vehicle is either all nine values or an exception.
\<close>

record veh_raw =
  veh_position :: "real \<times> real"
  veh_speed :: tval
  veh_angle :: tval
  veh_type_id :: string
  veh_road_id :: string
  veh_lane_id :: string
  veh_route :: "string list"
  veh_waiting_time :: tval
  veh_distance :: tval

text \<open>
  The per-signal queries of \<^verbatim>\<open>update_intersections_data\<close>
  (\<^verbatim>\<open>getRedYellowGreenState\<close>, \<^verbatim>\<open>getPhase\<close>, \<^verbatim>\<open>getNextSwitch\<close>,
  \<^verbatim>\<open>getProgram\<close>, \<^verbatim>\<open>getControlledLanes\<close>), the per-edge queries of
  \<^verbatim>\<open>update_roads_data\<close> (\<^verbatim>\<open>getLastStepVehicleNumber\<close>,
  \<^verbatim>\<open>getLastStepMeanSpeed\<close>, \<^verbatim>\<open>getLastStepVehicleIDs\<close>, \<^verbatim>\<open>getLaneNumber\<close>)
  and its per-lane queries (\<^verbatim>\<open>getLastStepVehicleNumber\<close>, \<^verbatim>\<open>getLastStepMeanSpeed\<close>,
  \<^verbatim>\<open>getLength\<close>), and the two per-lane queries of the intersections
  (\<^verbatim>\<open>getLastStepHaltingNumber\<close>, \<^verbatim>\<open>getWaitingTime\<close>).
\<close>

record tls_raw =
  tls_state :: string
  tls_phase :: tval
  tls_next_switch :: tval
  tls_program :: string
  tls_controlled_lanes :: "string list"

record edge_raw =
  edge_vehicle_number :: tval
  edge_mean_speed :: tval
  edge_vehicle_ids :: "string list"
  edge_lane_number :: tval

record lane_raw =
  lane_vehicle_number :: tval
  lane_mean_speed :: tval
  lane_length :: tval

text \<open>The places of the source that read the wall clock with \<^verbatim>\<open>time.time()\<close>.\<close>

datatype clock_site = AtVehicle string | AtIntersection string | AtRoad string | AtStats

text \<open>
  A frame is the engine as the bridge sees it while the simulation does not advance:
  the reply to each query, the wall clock (in seconds) at each place that reads it, and
  the interpreter's \<^verbatim>\<open>hash\<close> of a string.
\<close>

record frame =
  sim_getTime :: "tval reply"
  sim_getLoadedNumber :: "int reply"
  sim_getDepartedNumber :: "int reply"
  sim_getArrivedNumber :: "int reply"
  sim_getMinExpectedNumber :: "int reply"
  vehicle_getIDList :: "string list reply"
  vehicle_get :: "string \<Rightarrow> veh_raw reply"
  trafficlight_getIDList :: "string list reply"
  trafficlight_get :: "string \<Rightarrow> tls_raw reply"
  lane_get_queue :: "string \<Rightarrow> (int \<times> real) reply"
  edge_getIDList :: "string list reply"
  edge_get :: "string \<Rightarrow> edge_raw reply"
  lane_get :: "string \<Rightarrow> lane_raw reply"
  time_time :: "clock_site \<Rightarrow> real"
  py_hash :: "string \<Rightarrow> int"

subsection \<open>The published snapshots\<close>

record position_data =
  lat :: real
  lng :: real
  roadId :: string
  laneId :: string

record vehicle_data =
  vehicle_id :: string
  vehicle_type :: string
  vehicle_position :: position_data
  vehicle_speed :: real
  vehicle_angle :: real
  vehicle_route :: "string list"
  vehicle_timestamp :: real
  waitingTime :: real
  distance :: real

record emergency_data = vehicle_data +
  emergencyType :: string
  priority :: string
  status :: string

record traffic_light =
  light_phase :: string
  direction :: string
  remainingTime :: real
  nextPhase :: string

record intersection_data =
  intersection_id :: string
  intersection_position :: "real \<times> real"
  trafficLights :: "traffic_light list"
  queueLengths :: "(string \<times> int) list"
  waitingTimes :: "(string \<times> real) list"
  intersection_congestionLevel :: string
  intersection_timestamp :: real

record lane_data =
  lane_id :: string
  vehicleCount :: int
  averageSpeed :: real
  density :: real
  flow :: real

record road_data =
  road_id :: string
  coordinates :: "(real \<times> real) list"
  lanes :: "lane_data list"
  road_congestionLevel :: string
  incidents :: "string list"
  road_timestamp :: real

record stats_data =
  currentTime :: tval
  loadedVehicles :: int
  departedVehicles :: int
  arrivedVehicles :: int
  activeVehicles :: nat
  stats_timestamp :: real

subsection \<open>The bridge of \<^verbatim>\<open>sumo_bridge.py\<close>\<close>

text \<open>
  The cache fields follow \<^verbatim>\<open>__init__\<close>; \<^verbatim>\<open>simulation_stats\<close> starts as the empty
  dictionary (\<open>None\<close>) and is afterwards a dictionary with the six keys of
  \<^verbatim>\<open>update_simulation_stats\<close>.
\<close>

record bridge = bridge_core +
  sumo_host :: string
  sumo_port :: nat
  api_port :: nat
  vehicles_data :: "vehicle_data list"
  intersections_data :: "intersection_data list"
  roads_data :: "road_data list"
  emergency_vehicles_data :: "emergency_data list"
  simulation_stats :: "stats_data option"

definition init_bridge :: "string \<Rightarrow> nat \<Rightarrow> nat \<Rightarrow> bridge" where
  "init_bridge host port aport =
     \<lparr>connected = False, simulation_running = False, sumo_process = None,
      update_thread = None, stop_updates = False,
      sumo_host = host, sumo_port = port, api_port = aport,
      vehicles_data = [], intersections_data = [], roads_data = [],
      emergency_vehicles_data = [], simulation_stats = None\<rparr>"

subsection \<open>Classification and mapping of vehicles\<close>

text \<open>
  \<^verbatim>\<open>
  def map_vehicle_type(self, sumo_type):
      type_mapping = {'passenger': 'car', 'bus': 'bus', 'truck': 'truck',
                      'motorcycle': 'motorcycle', 'bicycle': 'bicycle',
                      'emergency': 'emergency'}
      return type_mapping.get(sumo_type, 'car')

  def is_emergency_vehicle(self, vehicle_id, vehicle_type):
      emergency_keywords = ['ambulance', 'police', 'fire', 'emergency', 'rescue']
      vehicle_id_lower = vehicle_id.lower()
      vehicle_type_lower = vehicle_type.lower()
      return any(keyword in vehicle_id_lower or keyword in vehicle_type_lower
                 for keyword in emergency_keywords)

  def get_emergency_type(self, vehicle_id, vehicle_type):
      vehicle_str = (vehicle_id + vehicle_type).lower()
      if 'ambulance' in vehicle_str: return 'ambulance'
      elif 'police' in vehicle_str: return 'police'
      elif 'fire' in vehicle_str: return 'fire'
      else: return 'rescue'
  \<close>
\<close>

definition map_vehicle_type :: "string \<Rightarrow> string" where
  "map_vehicle_type sumo_type =
     (if sumo_type = ''passenger'' then ''car''
      else if sumo_type = ''bus'' then ''bus''
      else if sumo_type = ''truck'' then ''truck''
      else if sumo_type = ''motorcycle'' then ''motorcycle''
      else if sumo_type = ''bicycle'' then ''bicycle''
      else if sumo_type = ''emergency'' then ''emergency''
      else ''car'')"

definition emergency_keywords :: "string list" where
  "emergency_keywords = [''ambulance'', ''police'', ''fire'', ''emergency'', ''rescue'']"

definition is_emergency_vehicle :: "string \<Rightarrow> string \<Rightarrow> bool" where
  "is_emergency_vehicle vid vtype =
     (let vehicle_id_lower = lower vid; vehicle_type_lower = lower vtype
      in list_ex (\<lambda>keyword. str_in keyword vehicle_id_lower \<or> str_in keyword vehicle_type_lower)
           emergency_keywords)"

definition get_emergency_type :: "string \<Rightarrow> string \<Rightarrow> string" where
  "get_emergency_type vid vtype =
     (let vehicle_str = lower (vid @ vtype)
      in if str_in ''ambulance'' vehicle_str then ''ambulance''
         else if str_in ''police'' vehicle_str then ''police''
         else if str_in ''fire'' vehicle_str then ''fire''
         else ''rescue'')"


section \<open>Sampling the engine\<close>

subsection \<open>Vehicles\<close>

text \<open>
  The dictionary built for one vehicle, and its emergency variant
  (\<^verbatim>\<open>emergency_data = vehicle_data.copy(); emergency_data.update({...})\<close>).
  The timestamp is the wall clock in milliseconds.
\<close>

definition make_vehicle_data :: "frame \<Rightarrow> string \<Rightarrow> veh_raw \<Rightarrow> vehicle_data" where
  "make_vehicle_data f vid raw =
     \<lparr>vehicle_id = vid,
      vehicle_type = map_vehicle_type (veh_type_id raw),
      vehicle_position =
        \<lparr>lat = 9.0320 + snd (veh_position raw) / 111320.0,
         lng = 38.7469 + fst (veh_position raw) / (111320.0 * 0.9),
         roadId = veh_road_id raw,
         laneId = veh_lane_id raw\<rparr>,
      vehicle_speed = safe_float (veh_speed raw) * 3.6,
      vehicle_angle = safe_float (veh_angle raw),
      vehicle_route = veh_route raw,
      vehicle_timestamp = time_time f (AtVehicle vid) * 1000,
      waitingTime = safe_float (veh_waiting_time raw),
      distance = safe_float (veh_distance raw)\<rparr>"

definition make_emergency_data :: "vehicle_data \<Rightarrow> string \<Rightarrow> string \<Rightarrow> emergency_data" where
  "make_emergency_data vd vid vtype =
     vehicle_data.extend vd
       (emergency_data.fields (get_emergency_type vid vtype) ''high'' ''responding'')"

text \<open>
  The loop of \<^verbatim>\<open>update_vehicles_data\<close> over the id list, with its two accumulators:
  \<^verbatim>\<open>
  for vehicle_id in vehicle_ids:
      try:
          ... nine queries, vehicle_data = {...}
          if self.is_emergency_vehicle(vehicle_id, vehicle_type):
              ...; emergency_vehicles.append(emergency_data)
          else:
              vehicles.append(vehicle_data)
      except Exception as e:
          logger.warning(...); continue
  \<close>
\<close>

fun collect_vehicles ::
  "frame \<Rightarrow> string list \<Rightarrow> vehicle_data list \<Rightarrow> emergency_data list
     \<Rightarrow> vehicle_data list \<times> emergency_data list" where
  "collect_vehicles f [] vehicles emergency_vehicles = (vehicles, emergency_vehicles)"
| "collect_vehicles f (vid # ids) vehicles emergency_vehicles =
     (case vehicle_get f vid of
        Inl x \<Rightarrow> collect_vehicles f ids vehicles emergency_vehicles
      | Inr raw \<Rightarrow>
          (let vd = make_vehicle_data f vid raw
           in if is_emergency_vehicle vid (veh_type_id raw)
              then collect_vehicles f ids vehicles
                     (emergency_vehicles @ [make_emergency_data vd vid (veh_type_id raw)])
              else collect_vehicles f ids (vehicles @ [vd]) emergency_vehicles))"

text \<open>
  \<^verbatim>\<open>
  def update_vehicles_data(self):
      try:
          vehicle_ids = traci.vehicle.getIDList()
          vehicles = []; emergency_vehicles = []
          for ...
          self.vehicles_data = vehicles
          self.emergency_vehicles_data = emergency_vehicles
      except Exception as e:
          logger.error(...)
  \<close>
\<close>

definition update_vehicles_data :: "frame \<Rightarrow> bridge \<Rightarrow> bridge" where
  "update_vehicles_data f s =
     (case vehicle_getIDList f of
        Inl x \<Rightarrow> s
      | Inr vehicle_ids \<Rightarrow>
          (case collect_vehicles f vehicle_ids [] [] of
             (vehicles, emergency_vehicles) \<Rightarrow>
               s\<lparr>vehicles_data := vehicles, emergency_vehicles_data := emergency_vehicles\<rparr>))"

subsection \<open>Intersections\<close>

text \<open>
  \<^verbatim>\<open>
  def map_tls_state(self, state):
      state_mapping = {'r': 'red', 'y': 'yellow', 'g': 'green', 'G': 'green'}
      return state_mapping.get(state, 'red')
  \<close>
\<close>

definition map_tls_state :: "string \<Rightarrow> string" where
  "map_tls_state st =
     (if st = ''r'' then ''red''
      else if st = ''y'' then ''yellow''
      else if st = ''g'' then ''green''
      else if st = ''G'' then ''green''
      else ''red'')"

text \<open>Assignment to a key of a dictionary kept as an association list.\<close>

fun dict_set :: "'k \<Rightarrow> 'v \<Rightarrow> ('k \<times> 'v) list \<Rightarrow> ('k \<times> 'v) list" where
  "dict_set k v [] = [(k, v)]"
| "dict_set k v ((k', v') # kvs) = (if k' = k then (k, v) # kvs else (k', v') # dict_set k v kvs)"

text \<open>
  The queue loop over \<^verbatim>\<open>controlled_lanes[:5]\<close>; its bare \<^verbatim>\<open>except: pass\<close> skips a
  lane whose queries raise.
\<close>

fun add_queues :: "frame \<Rightarrow> string list \<Rightarrow> intersection_data \<Rightarrow> intersection_data" where
  "add_queues f [] d = d"
| "add_queues f (lane # ls) d =
     (case lane_get_queue f lane of
        Inl x \<Rightarrow> add_queues f ls d
      | Inr (queue_length, waiting_time) \<Rightarrow>
          add_queues f ls
            (d\<lparr>queueLengths := dict_set lane queue_length (queueLengths d),
               waitingTimes := dict_set lane waiting_time (waitingTimes d)\<rparr>))"

text \<open>
  One iteration of the loop of \<^verbatim>\<open>update_intersections_data\<close>: \<open>None\<close> when a query
  of the signal or the \<^verbatim>\<open>getTime\<close> inside the dictionary raises (the handler continues
  with the next signal).
\<close>

definition sample_intersection :: "frame \<Rightarrow> string \<Rightarrow> intersection_data option" where
  "sample_intersection f tls_id =
     (case trafficlight_get f tls_id of
        Inl x \<Rightarrow> None
      | Inr raw \<Rightarrow>
          (case sim_getTime f of
             Inl x \<Rightarrow> None
           | Inr now \<Rightarrow>
               (let state = tls_state raw;
                    next_switch = safe_float (tls_next_switch raw);
                    pos = 9.0320 + real_of_int (py_hash f tls_id mod 1000) / 100000.0;
                    pos' = 38.7469 + real_of_int (py_hash f tls_id mod 1000) / 100000.0;
                    d = \<lparr>intersection_id = tls_id,
                         intersection_position = (pos, pos'),
                         trafficLights =
                           [\<lparr>light_phase = map_tls_state (if state \<noteq> [] then [hd state] else ''r''),
                             direction = ''all'',
                             remainingTime = max 0 (next_switch - safe_float now),
                             nextPhase = (if state \<noteq> [] \<and> [hd state] = ''r''
                                          then ''green'' else ''red'')\<rparr>],
                         queueLengths = [],
                         waitingTimes = [],
                         intersection_congestionLevel = ''low'',
                         intersection_timestamp = time_time f (AtIntersection tls_id) * 1000\<rparr>
                in Some (add_queues f (take 5 (tls_controlled_lanes raw)) d))))"

definition update_intersections_data :: "frame \<Rightarrow> bridge \<Rightarrow> bridge" where
  "update_intersections_data f s =
     (case trafficlight_getIDList f of
        Inl x \<Rightarrow> s
      | Inr tls_ids \<Rightarrow> s\<lparr>intersections_data := List.map_filter (sample_intersection f) tls_ids\<rparr>)"

subsection \<open>Roads\<close>

text \<open>
  One iteration of the lane loop (\<^verbatim>\<open>lane_id = f"{edge_id}_{lane_index}"\<close>); a lane whose
  queries raise is skipped by the bare \<^verbatim>\<open>except: pass\<close>.
\<close>

definition sample_lane :: "frame \<Rightarrow> string \<Rightarrow> nat \<Rightarrow> lane_data option" where
  "sample_lane f edge_id lane_index =
     (let lid = edge_id @ ''_'' @ str_nat lane_index
      in case lane_get f lid of
           Inl x \<Rightarrow> None
         | Inr raw \<Rightarrow>
             (let lane_vehicle_count = safe_int (lane_vehicle_number raw);
                  lane_mean_speed' = safe_float (lane_mean_speed raw);
                  lane_length' = safe_float (lane_length raw)
              in Some \<lparr>lane_id = lid,
                       vehicleCount = lane_vehicle_count,
                       averageSpeed = lane_mean_speed' * 3.6,
                       density = (if lane_length' > 0
                                  then real_of_int lane_vehicle_count / (lane_length' / 1000)
                                  else 0),
                       flow = (if lane_mean_speed' > 0
                               then real_of_int (lane_vehicle_count * 3600) / max 1.0 lane_mean_speed'
                               else 0)\<rparr>))"

text \<open>
  The body of the loop of \<^verbatim>\<open>update_roads_data\<close> for one edge id: \<open>None\<close> when the
  edge is internal (\<^verbatim>\<open>if edge_id.startswith(':'): continue\<close>) or when one of its four
  queries raises.
\<close>

definition sample_road :: "frame \<Rightarrow> string \<Rightarrow> road_data option" where
  "sample_road f edge_id =
     (if is_internal_edge edge_id then None
      else case edge_get f edge_id of
             Inl x \<Rightarrow> None
           | Inr raw \<Rightarrow>
               (let mean_speed = safe_float (edge_mean_speed raw);
                    lane_count = safe_int (edge_lane_number raw);
                    h = real_of_int (py_hash f edge_id mod 100) / 10000.0;
                    h_end = real_of_int (py_hash f (edge_id @ ''_end'') mod 100) / 10000.0
                in Some \<lparr>road_id = edge_id,
                         coordinates = [(9.0320 + h, 38.7469 + h), (9.0320 + h_end, 38.7469 + h_end)],
                         lanes = List.map_filter (sample_lane f edge_id) [0 ..< nat lane_count],
                         road_congestionLevel =
                           (if mean_speed < 5.0 then ''high''
                            else if mean_speed < 15.0 then ''medium'' else ''low''),
                         incidents = [],
                         road_timestamp = time_time f (AtRoad edge_id) * 1000\<rparr>))"

text \<open>
  \<^verbatim>\<open>
  def update_roads_data(self):
      try:
          edge_ids = traci.edge.getIDList()
          roads = []
          for edge_id in edge_ids[:50]:
              ...
          self.roads_data = roads
      except Exception as e:
          logger.error(...)
  \<close>
\<close>

definition update_roads_data :: "frame \<Rightarrow> bridge \<Rightarrow> bridge" where
  "update_roads_data f s =
     (case edge_getIDList f of
        Inl x \<Rightarrow> s
      | Inr edge_ids \<Rightarrow> s\<lparr>roads_data := List.map_filter (sample_road f) (take 50 edge_ids)\<rparr>)"

subsection \<open>Statistics\<close>

text \<open>
  \<^verbatim>\<open>
  def update_simulation_stats(self):
      try:
          current_time = traci.simulation.getTime()
          loaded_vehicles = traci.simulation.getLoadedNumber()
          departed_vehicles = traci.simulation.getDepartedNumber()
          arrived_vehicles = traci.simulation.getArrivedNumber()
          self.simulation_stats = {
              'currentTime': current_time, ...,
              'activeVehicles': len(self.vehicles_data) + len(self.emergency_vehicles_data),
              'timestamp': time.time() * 1000 }
      except Exception as e:
          logger.error(...)
  \<close>
\<close>

definition update_simulation_stats :: "frame \<Rightarrow> bridge \<Rightarrow> bridge" where
  "update_simulation_stats f s =
     (case sim_getTime f of
        Inl x \<Rightarrow> s
      | Inr current_time \<Rightarrow>
     (case sim_getLoadedNumber f of
        Inl x \<Rightarrow> s
      | Inr loaded_vehicles \<Rightarrow>
     (case sim_getDepartedNumber f of
        Inl x \<Rightarrow> s
      | Inr departed_vehicles \<Rightarrow>
     (case sim_getArrivedNumber f of
        Inl x \<Rightarrow> s
      | Inr arrived_vehicles \<Rightarrow>
          s\<lparr>simulation_stats := Some
              \<lparr>currentTime = current_time,
               loadedVehicles = loaded_vehicles,
               departedVehicles = departed_vehicles,
               arrivedVehicles = arrived_vehicles,
               activeVehicles = length (vehicles_data s) + length (emergency_vehicles_data s),
               stats_timestamp = time_time f AtStats * 1000\<rparr>\<rparr>))))"

subsection \<open>One complete update of the cache\<close>

text \<open>
  The handlers of the loop and of \<^verbatim>\<open>update_simulation_data\<close> classify an exception by
  its text:
  \<^verbatim>\<open>if "connection" in str(e).lower() or "socket" in str(e).lower():\<close>
\<close>

definition is_connection_error :: "exn \<Rightarrow> bool" where
  "is_connection_error x =
     (str_in ''connection'' (lower (text_of x)) \<or> str_in ''socket'' (lower (text_of x)))"

text \<open>
  \<^verbatim>\<open>
  def update_simulation_data(self):
      if not self.connected:
          return
      try:
          self.update_vehicles_data()
          self.update_intersections_data()
          self.update_roads_data()
          self.update_simulation_stats()
          if traci.simulation.getMinExpectedNumber() == 0:
              logger.info(...)
      except Exception as e:
          if "connection" in str(e).lower() or "socket" in str(e).lower():
              self.connected = False
              self.simulation_running = False
  \<close>
  The four updates catch their own exceptions, so only \<^verbatim>\<open>getMinExpectedNumber\<close> can
  reach the handler.
\<close>

definition update_simulation_data :: "frame \<Rightarrow> bridge \<Rightarrow> bridge" where
  "update_simulation_data f s =
     (if \<not> connected s then s
      else
        (let s4 = update_simulation_stats f
                    (update_roads_data f (update_intersections_data f (update_vehicles_data f s)))
         in case sim_getMinExpectedNumber f of
              Inl x \<Rightarrow>
                (if is_connection_error x
                 then s4\<lparr>connected := False, simulation_running := False\<rparr>
                 else s4)
            | Inr n \<Rightarrow> s4))"


section \<open>Opening the session\<close>

subsection \<open>Paths and the working directory\<close>

text \<open>
  POSIX \<^verbatim>\<open>os.path.join\<close> of two components, \<^verbatim>\<open>os.path.basename\<close> and
  \<^verbatim>\<open>os.path.dirname\<close>. \<^verbatim>\<open>os.getcwd\<close> and \<^verbatim>\<open>os.chdir\<close> act on the world:
  \<open>dirs\<close> is the set of paths into which the process can change at the moment, changing
  into a path outside of it raises, and so does asking for a working directory that is
  gone. Other processes may remove directories at any time; where this matters, the
  environment of a function says which directories go away while the function runs.
\<close>

definition path_join :: "string \<Rightarrow> string \<Rightarrow> string" where
  "path_join a b =
     (if starts_with ''/'' b then b
      else if a = [] \<or> last a = CHR ''/'' then a @ b
      else a @ ''/'' @ b)"

definition basename :: "string \<Rightarrow> string" where
  "basename p = rev (takeWhile (\<lambda>c. c \<noteq> CHR ''/'') (rev p))"

definition dirname :: "string \<Rightarrow> string" where
  "dirname p =
     (let head = rev (dropWhile (\<lambda>c. c \<noteq> CHR ''/'') (rev p))
      in if head \<noteq> [] \<and> list_ex (\<lambda>c. c \<noteq> CHR ''/'') head
         then rev (dropWhile (\<lambda>c. c = CHR ''/'') (rev head))
         else head)"

definition getcwd :: "'w world_scheme \<Rightarrow> string reply" where
  "getcwd w = (if cwd w \<in> dirs w then Inr (cwd w) else Inl (Exn FileNotFoundError ''No such file or directory''))"

definition chdir :: "string \<Rightarrow> 'w world_scheme \<Rightarrow> 'w world_scheme reply" where
  "chdir d w = (if d \<in> dirs w then Inr (w\<lparr>cwd := d\<rparr>) else Inl (Exn FileNotFoundError ''No such file or directory''))"

text \<open>The part of the world that \<^verbatim>\<open>os.chdir\<close> reads and writes.\<close>

definition place :: "'w world_scheme \<Rightarrow> string \<times> string set" where
  "place w = (cwd w, dirs w)"

subsection \<open>Calls that may raise, in sequence\<close>

text \<open>
  \<open>ask c r k\<close> issues the TraCI call \<open>c\<close>, whose reply is \<open>r\<close>: an exception ends the
  sequence, a value is passed to the rest \<open>k\<close> of the sequence.
\<close>

definition ask ::
  "traci_call \<Rightarrow> 'a reply \<Rightarrow> ('a \<Rightarrow> 'w world_scheme \<Rightarrow> 'w world_scheme \<times> 'b reply)
     \<Rightarrow> 'w world_scheme \<Rightarrow> 'w world_scheme \<times> 'b reply" where
  "ask c r k w =
     (case r of
        Inl x \<Rightarrow> (traci_issue c w, Inl x)
      | Inr v \<Rightarrow> k v (traci_issue c w))"

definition finish :: "'b \<Rightarrow> 'w world_scheme \<Rightarrow> 'w world_scheme \<times> 'b reply" where
  "finish v w = (w, Inr v)"

subsection \<open>The engine binary and its command line\<close>

definition sumo_binary_name :: "bool \<Rightarrow> string" where
  "sumo_binary_name use_gui = (if use_gui then ''sumo-gui'' else ''sumo'')"

text \<open>
  \<^verbatim>\<open>
  sumo_home = os.environ.get('SUMO_HOME')
  if sumo_home:
      if use_gui: sumo_binary = os.path.join(sumo_home, 'bin', 'sumo-gui.exe')
      else:       sumo_binary = os.path.join(sumo_home, 'bin', 'sumo.exe')
      if not os.path.exists(sumo_binary):
          sumo_binary = "sumo-gui" if use_gui else "sumo"
  else:
      sumo_binary = "sumo-gui" if use_gui else "sumo"
  \<close>
\<close>

definition choose_binary :: "string option \<Rightarrow> (string \<Rightarrow> bool) \<Rightarrow> bool \<Rightarrow> string" where
  "choose_binary home exists use_gui =
     (case home of
        None \<Rightarrow> sumo_binary_name use_gui
      | Some h \<Rightarrow>
          (if h = [] then sumo_binary_name use_gui
           else
             (let b = path_join (path_join h ''bin'') (sumo_binary_name use_gui @ ''.exe'')
              in if exists b then b else sumo_binary_name use_gui)))"


definition sumo_cmd :: "string \<Rightarrow> string \<Rightarrow> bool \<Rightarrow> string list" where
  "sumo_cmd sumo_binary config_file use_gui =
     [sumo_binary, ''-c'', config_file, ''--step-length'', ''1.0'', ''--no-warnings'',
      ''--no-step-log'', ''--quit-on-end'', ''--delay'', ''0'', ''--begin'', ''0'',
      ''--end'', ''10800'']
     @ (if \<not> use_gui
        then [''--xml-validation'', ''never'', ''--ignore-route-errors'', ''--eager-insert'',
              ''--max-depart-delay'', ''7200'', ''--time-to-teleport'', ''600'']
        else [])"

subsection \<open>\<^verbatim>\<open>connect_to_sumo\<close> of \<^verbatim>\<open>sumo_bridge.py\<close>\<close>

text \<open>
  The environment of a connection attempt: the project root computed from
  \<^verbatim>\<open>__file__\<close>, \<^verbatim>\<open>os.path.exists\<close>, \<^verbatim>\<open>SUMO_HOME\<close>, the reply of the initial
  \<^verbatim>\<open>traci.close()\<close> and of \<^verbatim>\<open>traci.start\<close>, the frame seen after the start, and for
  the warm-up loop the reply of its step number \<open>i\<close> and the frame seen after that step.
  The body of the inner \<^verbatim>\<open>try\<close> starts the engine and sleeps for seconds: \<open>vanished\<close>
  is the set of directories that other processes remove, or make inaccessible, between
  \<^verbatim>\<open>os.getcwd()\<close> and the \<^verbatim>\<open>os.chdir(original_cwd)\<close> of the \<^verbatim>\<open>finally\<close> clause.
\<close>

record connect_env =
  project_root :: string
  path_exists :: "string \<Rightarrow> bool"
  sumo_home :: "string option"
  start_reply :: "unit reply"
  initial_view :: frame
  warm_step_reply :: "nat \<Rightarrow> unit reply"
  view_after :: "nat \<Rightarrow> frame"
  vanished :: "string set"

text \<open>
  \<^verbatim>\<open>
  for i in range(max_steps):
      traci.simulationStep()
      steps_needed += 1
      if i % 10 == 0:
          loaded_vehicles = traci.simulation.getLoadedNumber()
          departed_vehicles = traci.simulation.getDepartedNumber()
          active_vehicles = len(traci.vehicle.getIDList())
          if active_vehicles > 0:
              break
  \<close>
  \<open>warm_up e i n\<close> runs the iterations \<open>i, ..., i + n - 1\<close> and returns the number of
  steps taken so far.
\<close>

fun warm_up ::
  "connect_env \<Rightarrow> nat \<Rightarrow> nat \<Rightarrow> 'w world_scheme \<Rightarrow> 'w world_scheme \<times> nat reply" where
  "warm_up e i 0 w = (w, Inr i)"
| "warm_up e i (Suc n) w =
     ask TSimulationStep (warm_step_reply e i) (\<lambda>u w1.
       if i mod 10 = 0
       then ask TGetLoadedNumber (sim_getLoadedNumber (view_after e i)) (\<lambda>loaded_vehicles.
            ask TGetDepartedNumber (sim_getDepartedNumber (view_after e i)) (\<lambda>departed_vehicles.
            ask TGetVehicleIDList (vehicle_getIDList (view_after e i)) (\<lambda>ids w2.
              if length ids > 0 then (w2, Inr (Suc i)) else warm_up e (Suc i) n w2))) w1
       else warm_up e (Suc i) n w1) w"

text \<open>
  The calls between \<^verbatim>\<open>os.chdir(config_dir)\<close> and the setting of the flags:
  \<^verbatim>\<open>
  traci.start(sumo_cmd, label="default")
  time.sleep(2)
  current_time = self.safe_float(traci.simulation.getTime())
  loaded_vehicles = traci.simulation.getLoadedNumber()
  departed_vehicles = traci.simulation.getDepartedNumber()
  if loaded_vehicles == 0 or departed_vehicles == 0:
      ... warm-up loop ...
      final_active = len(traci.vehicle.getIDList())
  \<close>
\<close>

definition handshake ::
  "connect_env \<Rightarrow> string list \<Rightarrow> 'w world_scheme \<Rightarrow> 'w world_scheme \<times> unit reply" where
  "handshake e cmd w =
     ask (TStart cmd) (start_reply e) (\<lambda>u.
     ask TGetTime (sim_getTime (initial_view e)) (\<lambda>current_time.
     ask TGetLoadedNumber (sim_getLoadedNumber (initial_view e)) (\<lambda>loaded_vehicles.
     ask TGetDepartedNumber (sim_getDepartedNumber (initial_view e)) (\<lambda>departed_vehicles w1.
       if loaded_vehicles = 0 \<or> departed_vehicles = 0
       then (case warm_up e 0 100 w1 of
               (w2, Inl x) \<Rightarrow> (w2, Inl x)
             | (w2, Inr steps) \<Rightarrow>
                 ask TGetVehicleIDList (vehicle_getIDList (view_after e (steps - 1)))
                   (\<lambda>ids. finish ()) w2)
       else finish () w1)))) w"

text \<open>
  The body of the inner \<^verbatim>\<open>try\<close>: it returns the world, the bridge and the exception
  that left it, if any.
\<close>

definition connect_body ::
  "connect_env \<Rightarrow> string \<Rightarrow> string list \<Rightarrow> 'w world_scheme \<Rightarrow> 'a bridge_core_scheme
     \<Rightarrow> 'w world_scheme \<times> 'a bridge_core_scheme \<times> exn option" where
  "connect_body e config_dir cmd w s =
     (case chdir config_dir w of
        Inl x \<Rightarrow> (w, s, Some x)
      | Inr w1 \<Rightarrow>
          (case handshake e cmd w1 of
             (w2, Inl x) \<Rightarrow> (w2, s, Some x)
           | (w2, Inr u) \<Rightarrow>
               (case start_data_updates w2 (s\<lparr>connected := True, simulation_running := True\<rparr>) of
                  (w3, s3) \<Rightarrow> (w3, s3, None))))"

text \<open>
  \<^verbatim>\<open>
  def connect_to_sumo(self, use_gui=False):
      try:
          try: traci.close()
          except Exception: pass
          ... regular_config = os.path.join(project_root, 'AddisAbabaSumo', 'AddisAbaba.sumocfg')
          if os.path.exists(regular_config): config_to_use = regular_config
          else: raise Exception(...)
          ... sumo_binary, sumo_cmd ...
          original_cwd = os.getcwd()
          try:
              os.chdir(config_dir)
              ...
              self.connected = True
              self.simulation_running = True
              self.start_data_updates()
              return True
          finally:
              os.chdir(original_cwd)
      except Exception as e:
          self.connected = False
          return False
  \<close>
  \<open>remove_dirs\<close> is the effect of the other processes on the directories while the body
  runs. An exception of the \<^verbatim>\<open>finally\<close> clause replaces the result of the body, also a
  \<^verbatim>\<open>return True\<close>, and reaches the outer handler.
\<close>

definition remove_dirs :: "string set \<Rightarrow> 'w world_scheme \<Rightarrow> 'w world_scheme" where
  "remove_dirs gone w = w\<lparr>dirs := dirs w - gone\<rparr>"

definition connect_to_sumo ::
  "connect_env \<Rightarrow> bool \<Rightarrow> 'w world_scheme \<Rightarrow> 'a bridge_core_scheme
     \<Rightarrow> bool \<times> 'w world_scheme \<times> 'a bridge_core_scheme" where
  "connect_to_sumo e use_gui w s =
     (let w0 = traci_issue TClose w;
          regular_config =
            path_join (path_join (project_root e) ''AddisAbabaSumo'') ''AddisAbaba.sumocfg''
      in if \<not> path_exists e regular_config then (False, w0, s\<lparr>connected := False\<rparr>)
         else
           (let config_dir = dirname regular_config;
                config_file = basename regular_config;
                sumo_binary = choose_binary (sumo_home e) (path_exists e) use_gui;
                cmd = sumo_cmd sumo_binary config_file use_gui
            in case getcwd w0 of
                 Inl x \<Rightarrow> (False, w0, s\<lparr>connected := False\<rparr>)
               | Inr original_cwd \<Rightarrow>
                   (case connect_body e config_dir cmd w0 s of
                      (w1, s1, r) \<Rightarrow>
                        (case chdir original_cwd (remove_dirs (vanished e) w1) of
                           Inl x \<Rightarrow>
                             (False, remove_dirs (vanished e) w1, s1\<lparr>connected := False\<rparr>)
                         | Inr w2 \<Rightarrow>
                             (case r of
                                Some x \<Rightarrow> (False, w2, s1\<lparr>connected := False\<rparr>)
                              | None \<Rightarrow> (True, w2, s1))))))"

subsection \<open>\<^verbatim>\<open>connect_to_sumo_fixed\<close> of \<^verbatim>\<open>sumo_bridge_fixed.py\<close>\<close>








section \<open>The polling loop\<close>

text \<open>
  The local variables of \<^verbatim>\<open>update_data_loop\<close> that live across iterations are
  \<^verbatim>\<open>update_count\<close> and \<^verbatim>\<open>last_time\<close>. The environment of one iteration is the
  frame seen before the step, the reply of \<^verbatim>\<open>traci.simulationStep()\<close> and the frame
  seen after it. Of the log, the model keeps the warning about the simulation time and the
  two messages of the handler.
\<close>

record loop_state =
  update_count :: nat
  last_time :: real

record tick_env =
  pre :: frame
  step_reply :: "unit reply"
  post :: frame

datatype log_event = TimeNotAdvancing real | LoopError exn | ConnectionLost

text \<open>
  \<^verbatim>\<open>
  if self.simulation_running:
      traci.simulationStep()
      new_time = self.safe_float(traci.simulation.getTime())
      if new_time > last_time:
          last_time = new_time
      else:
          logger.warning(f"Simulation time not advancing: {new_time}")
  \<close>
\<close>

definition advance_simulation ::
  "tick_env \<Rightarrow> bridge \<Rightarrow> loop_state \<Rightarrow> exn option \<times> loop_state \<times> log_event list" where
  "advance_simulation e s l =
     (if simulation_running s
      then (case step_reply e of
              Inl x \<Rightarrow> (Some x, l, [])
            | Inr u \<Rightarrow>
                (case sim_getTime (post e) of
                   Inl x \<Rightarrow> (Some x, l, [])
                 | Inr t \<Rightarrow>
                     (let new_time = safe_float t
                      in if new_time > last_time l
                         then (None, l\<lparr>last_time := new_time\<rparr>, [])
                         else (None, l, [TimeNotAdvancing new_time]))))
      else (None, l, []))"

text \<open>
  \<^verbatim>\<open>
  if update_count % 10 == 0:
      loaded = traci.simulation.getLoadedNumber()
      departed = traci.simulation.getDepartedNumber()
      logger.info(...)
  \<close>
\<close>

definition progress_report :: "frame \<Rightarrow> loop_state \<Rightarrow> exn option" where
  "progress_report f l =
     (if update_count l mod 10 = 0
      then (case sim_getLoadedNumber f of
              Inl x \<Rightarrow> Some x
            | Inr loaded \<Rightarrow>
                (case sim_getDepartedNumber f of
                   Inl x \<Rightarrow> Some x
                 | Inr departed \<Rightarrow> None))
      else None)"

text \<open>
  The body of the \<^verbatim>\<open>try\<close> of one iteration. The result is the exception that reaches
  the handler of the loop, if any, the bridge, the local variables and the log.
  \<^verbatim>\<open>
  update_count += 1
  current_time = self.safe_float(traci.simulation.getTime())
  vehicle_count = len(traci.vehicle.getIDList())
  if self.simulation_running: ...
  if update_count % 10 == 0: ...
  self.update_simulation_data()
  time.sleep(0.1)
  \<close>
\<close>

definition tick ::
  "tick_env \<Rightarrow> bridge \<Rightarrow> loop_state \<Rightarrow> exn option \<times> bridge \<times> loop_state \<times> log_event list" where
  "tick e s l =
     (let l1 = l\<lparr>update_count := Suc (update_count l)\<rparr>
      in case sim_getTime (pre e) of
           Inl x \<Rightarrow> (Some x, s, l1, [])
         | Inr current_time \<Rightarrow>
             (case vehicle_getIDList (pre e) of
                Inl x \<Rightarrow> (Some x, s, l1, [])
              | Inr ids \<Rightarrow>
                  (case advance_simulation e s l1 of
                     (Some x, l2, lg) \<Rightarrow> (Some x, s, l2, lg)
                   | (None, l2, lg) \<Rightarrow>
                       (let f = (if simulation_running s then post e else pre e)
                        in case progress_report f l2 of
                             Some x \<Rightarrow> (Some x, s, l2, lg)
                           | None \<Rightarrow> (None, update_simulation_data f s, l2, lg)))))"

text \<open>
  One iteration of
  \<^verbatim>\<open>
  while not self.stop_updates and self.connected:
      try:
          ... body ...
      except Exception as e:
          logger.error(...)
          if "connection" in str(e).lower() or "socket" in str(e).lower():
              logger.warning("TraCI connection lost in update loop")
              self.connected = False
              self.simulation_running = False
              break
          time.sleep(5)
  \<close>
  The status tells how the iteration ends: the loop goes on, the loop condition was false,
  or the handler left the loop with \<^verbatim>\<open>break\<close>.
\<close>

datatype loop_status = Looping | ExitedByCondition | HaltedByError exn

definition loop_iteration ::
  "tick_env \<Rightarrow> bridge \<Rightarrow> loop_state
     \<Rightarrow> loop_status \<times> bridge \<times> loop_state \<times> log_event list" where
  "loop_iteration e s l =
     (if \<not> (\<not> stop_updates s \<and> connected s) then (ExitedByCondition, s, l, [])
      else case tick e s l of
             (None, s', l', lg) \<Rightarrow> (Looping, s', l', lg)
           | (Some x, s', l', lg) \<Rightarrow>
               (if is_connection_error x
                then (HaltedByError x,
                      s'\<lparr>connected := False, simulation_running := False\<rparr>, l',
                      lg @ [LoopError x, ConnectionLost])
                else (Looping, s', l', lg @ [LoopError x])))"

text \<open>
  The iterations of the loop for a finite sequence of environments. The status is
  \<open>Looping\<close> when the loop has not been left after all of them.
\<close>

fun run_loop ::
  "tick_env list \<Rightarrow> bridge \<Rightarrow> loop_state \<Rightarrow> log_event list
     \<Rightarrow> loop_status \<times> bridge \<times> loop_state \<times> log_event list" where
  "run_loop [] s l lg = (Looping, s, l, lg)"
| "run_loop (e # es) s l lg =
     (case loop_iteration e s l of
        (Looping, s', l', lg') \<Rightarrow> run_loop es s' l' (lg @ lg')
      | (st, s', l', lg') \<Rightarrow> (st, s', l', lg @ lg'))"

text \<open>
  \<^verbatim>\<open>update_data_loop\<close> as the target of the update thread: the locals start at
  \<^verbatim>\<open>update_count = 0\<close> and \<^verbatim>\<open>last_time = -1\<close>, and when the function returns the
  thread is no longer alive.
\<close>

definition thread_exit :: "bridge \<Rightarrow> bridge" where
  "thread_exit s =
     (case update_thread s of None \<Rightarrow> s | Some t \<Rightarrow> s\<lparr>update_thread := Some (Thread False)\<rparr>)"

definition update_data_loop ::
  "tick_env list \<Rightarrow> bridge \<Rightarrow> loop_status \<times> bridge \<times> loop_state \<times> log_event list" where
  "update_data_loop es s =
     (case run_loop es s \<lparr>update_count = 0, last_time = - 1\<rparr> [] of
        (st, s', l', lg) \<Rightarrow> (st, if st = Looping then s' else thread_exit s', l', lg))"

text \<open>
  The stall counter as the specification words it, written down for comparison with the
  loop: given the simulation times observed after the steps of the ticks so far, a tick
  whose time does not exceed the last time increments the counter and a tick whose time
  advances resets it to 0.
\<close>

fun spec_stall_counter :: "real \<Rightarrow> nat \<Rightarrow> real list \<Rightarrow> nat" where
  "spec_stall_counter seen n [] = n"
| "spec_stall_counter seen n (t # ts) =
     (if t > seen then spec_stall_counter t 0 ts else spec_stall_counter seen (Suc n) ts)"


section \<open>Read endpoints and auxiliary notions\<close>

text \<open>
  The read endpoints return fields of the cache:
  \<^verbatim>\<open>/vehicles\<close> returns \<^verbatim>\<open>self.vehicles_data\<close>, \<^verbatim>\<open>/roads\<close> returns
  \<^verbatim>\<open>self.roads_data\<close>, and \<^verbatim>\<open>/all-data\<close> returns the five cache fields together.
\<close>

definition get_vehicles :: "bridge \<Rightarrow> vehicle_data list" where
  "get_vehicles s = vehicles_data s"

definition get_roads :: "bridge \<Rightarrow> road_data list" where
  "get_roads s = roads_data s"

definition get_all_data ::
  "bridge \<Rightarrow> vehicle_data list \<times> intersection_data list \<times> road_data list
     \<times> emergency_data list \<times> stats_data option" where
  "get_all_data s =
     (vehicles_data s, intersections_data s, roads_data s, emergency_vehicles_data s,
      simulation_stats s)"

text \<open>
  A reply that is a value; a frame in which the four queries of the statistics succeed; a
  frame in which the three id lists are returned.
\<close>

definition succeeded :: "'a reply \<Rightarrow> bool" where
  "succeeded r = (case r of Inl x \<Rightarrow> False | Inr v \<Rightarrow> True)"

definition stats_available :: "frame \<Rightarrow> bool" where
  "stats_available f =
     (succeeded (sim_getTime f) \<and> succeeded (sim_getLoadedNumber f) \<and> succeeded (sim_getDepartedNumber f)
      \<and> succeeded (sim_getArrivedNumber f))"

definition lists_available :: "frame \<Rightarrow> bool" where
  "lists_available f =
     (succeeded (vehicle_getIDList f) \<and> succeeded (trafficlight_getIDList f) \<and> succeeded (edge_getIDList f))"

text \<open>
  The connection error of the specification (``any I/O failure on \<^verbatim>\<open>step()\<close> or a query
  is classified \<^verbatim>\<open>ConnectionError\<close>''), written down for comparison with the test of the
  handlers: TraCI reports the loss of its channel with a \<^verbatim>\<open>FatalTraCIError\<close>, the
  socket layer with an \<^verbatim>\<open>OSError\<close>; a \<^verbatim>\<open>TraCIException\<close> is the answer of a
  reachable engine that rejects a command.
\<close>

definition spec_connection_error :: "exn \<Rightarrow> bool" where
  "spec_connection_error x = (class_of x = FatalTraCIError \<or> class_of x = SocketError)"

text \<open>
  The calls that the body of the loop issues itself, outside of
  \<^verbatim>\<open>update_simulation_data\<close>, all return: the two queries before the step, the step and
  the query of the time after it when the simulation is running, and the two queries of
  the progress report when the incremented \<^verbatim>\<open>update_count\<close> is a multiple of 10.
\<close>

definition loop_calls_succeed :: "tick_env \<Rightarrow> bridge \<Rightarrow> loop_state \<Rightarrow> bool" where
  "loop_calls_succeed e s l =
     (succeeded (sim_getTime (pre e)) \<and> succeeded (vehicle_getIDList (pre e))
      \<and> (simulation_running s \<longrightarrow>
            succeeded (step_reply e) \<and> succeeded (sim_getTime (post e)))
      \<and> (Suc (update_count l) mod 10 = 0 \<longrightarrow>
            succeeded (sim_getLoadedNumber (if simulation_running s then post e else pre e))
            \<and> succeeded (sim_getDepartedNumber (if simulation_running s then post e else pre e))))"

subsection \<open>Concrete frames for the examples\<close>

text \<open>
  An engine without vehicles, signals and edges at simulation time 0, observed at the
  wall-clock time 1700000000 s; a passenger car.
\<close>

definition quiet_frame :: frame where
  "quiet_frame =
     \<lparr>sim_getTime = Inr (TNum 0),
      sim_getLoadedNumber = Inr 0,
      sim_getDepartedNumber = Inr 0,
      sim_getArrivedNumber = Inr 0,
      sim_getMinExpectedNumber = Inr 1,
      vehicle_getIDList = Inr [],
      vehicle_get = (\<lambda>vid. Inl (Exn TraCIException ''Vehicle is not known'')),
      trafficlight_getIDList = Inr [],
      trafficlight_get = (\<lambda>tid. Inl (Exn TraCIException ''Traffic light is not known'')),
      lane_get_queue = (\<lambda>lid. Inl (Exn TraCIException ''Lane is not known'')),
      edge_getIDList = Inr [],
      edge_get = (\<lambda>eid. Inl (Exn TraCIException ''Edge is not known'')),
      lane_get = (\<lambda>lid. Inl (Exn TraCIException ''Lane is not known'')),
      time_time = (\<lambda>site. 1700000000),
      py_hash = (\<lambda>str. 0)\<rparr>"

definition car_raw :: veh_raw where
  "car_raw =
     \<lparr>veh_position = (0, 0), veh_speed = TNum 10, veh_angle = TNum 90,
      veh_type_id = ''passenger'', veh_road_id = ''e1'', veh_lane_id = ''e1_0'',
      veh_route = [''e1'', ''e2''], veh_waiting_time = TNum 0, veh_distance = TNum 5\<rparr>"

definition edge_raw0 :: edge_raw where
  "edge_raw0 =
     \<lparr>edge_vehicle_number = TNum 0, edge_mean_speed = TNum 13, edge_vehicle_ids = [],
      edge_lane_number = TNum 0\<rparr>"

text \<open>A frame at simulation time \<open>t\<close> with the given vehicles, all of them cars but
  for the ids that are answered with the raw data \<open>special\<close>.\<close>

definition traffic_frame :: "real \<Rightarrow> string list \<Rightarrow> frame" where
  "traffic_frame t ids =
     quiet_frame\<lparr>sim_getTime := Inr (TNum t),
                 vehicle_getIDList := Inr ids,
                 vehicle_get := (\<lambda>vid. if vid \<in> set ids then Inr car_raw
                                        else Inl (Exn TraCIException ''Vehicle is not known''))\<rparr>"

definition running_bridge :: bridge where
  "running_bridge =
     (init_bridge ''localhost'' 8813 8814)
       \<lparr>connected := True, simulation_running := True, update_thread := Some (Thread True)\<rparr>"

text \<open>A roads snapshot of at most 50 entries, none of them an internal edge.\<close>

definition roads_bounded :: "road_data list \<Rightarrow> bool" where
  "roads_bounded rs = (length rs \<le> 50 \<and> list_all (\<lambda>r. \<not> is_internal_edge (road_id r)) rs)"

text \<open>
  A network of 61 edges, all of which answer their queries: an internal edge followed by
  the edges \<^verbatim>\<open>e0\<close> to \<^verbatim>\<open>e59\<close>.
\<close>

definition edge_name :: "nat \<Rightarrow> string" where
  "edge_name n = ''e'' @ str_nat n"

definition crowded_ids :: "string list" where
  "crowded_ids = '':j1_0'' # map edge_name [0 ..< 60]"

definition crowded_frame :: frame where
  "crowded_frame =
     quiet_frame\<lparr>edge_getIDList := Inr crowded_ids, edge_get := (\<lambda>eid. Inr edge_raw0)\<rparr>"

definition crowded_tick :: tick_env where
  "crowded_tick = \<lparr>pre = crowded_frame, step_reply = Inr (), post = crowded_frame\<rparr>"

text \<open>
  The property of the specification that compares the two clocks of a snapshot: every
  vehicle timestamp of the cache differs from the \<^verbatim>\<open>currentTime\<close> of the cached
  statistics by at most the given interval.
\<close>

definition within_tick_interval :: "real \<Rightarrow> bridge \<Rightarrow> bool" where
  "within_tick_interval interval s =
     (case simulation_stats s of
        None \<Rightarrow> True
      | Some st \<Rightarrow>
          list_all (\<lambda>v. \<bar>vehicle_timestamp v - safe_float (currentTime st)\<bar> \<le> interval)
            (vehicles_data s))"

text \<open>
  A frame with a car, an ambulance named by its id, a police car named by its type, and an
  id whose queries raise. A frame one second later in which the vehicle id list cannot be
  read.
\<close>

definition mixed_frame :: frame where
  "mixed_frame =
     quiet_frame\<lparr>sim_getTime := Inr (TNum 1),
                 vehicle_getIDList := Inr [''veh0'', ''Ambulance_1'', ''veh2'', ''ghost''],
                 vehicle_get := (\<lambda>vid. if vid = ''ghost'' then Inl (Exn TraCIException ''Vehicle ghost is not known'')
                                        else if vid = ''veh2''
                                        then Inr (car_raw\<lparr>veh_type_id := ''Police_car''\<rparr>)
                                        else Inr car_raw)\<rparr>"

definition unreadable_frame :: frame where
  "unreadable_frame =
     (traffic_frame 2 [''veh0''])
       \<lparr>vehicle_getIDList := Inl (Exn OtherException ''timeout''), time_time := (\<lambda>site. 1700000001)\<rparr>"

subsection \<open>Concrete worlds and environments for the examples\<close>

definition world0 :: world where
  "world0 = \<lparr>cwd = ''/srv'', dirs = {''/srv''}, traci_log = [], signals = [], threads_started = 1\<rparr>"

definition bridge0 :: bridge_core where
  "bridge0 =
     \<lparr>connected = True, simulation_running = True, sumo_process = Some 4242,
      update_thread = Some (Thread True), stop_updates = False\<rparr>"

definition stop_env_ok :: stop_env where
  "stop_env_ok =
     \<lparr>disc = \<lparr>join_exits = True, close_reply = Inr ()\<rparr>,
      terminate_reply = Inr (), wait_reply = Exited, kill_reply = Inr (),
      wait_again_reply = Inr ()\<rparr>"

definition stop_env_close_fails :: stop_env where
  "stop_env_close_fails =
     stop_env_ok\<lparr>disc := \<lparr>join_exits = True, close_reply = Inl (Exn FatalTraCIError ''connection closed by SUMO'')\<rparr>\<rparr>"


section \<open>Commands and request handlers\<close>

subsection \<open>Overriding a traffic light\<close>

text \<open>
  \<^verbatim>\<open>
  def override_traffic_light(self, intersection_id, phase, duration=30):
      if not self.connected:
          return False
      try:
          phase_mapping = {'red': 'r', 'yellow': 'y', 'green': 'G'}
          sumo_phase = phase_mapping.get(phase, 'G')
          current_program = traci.trafficlight.getProgram(intersection_id)
          traci.trafficlight.setRedYellowGreenState(intersection_id, sumo_phase * 4)
          return True
      except Exception as e:
          return False
  \<close>
  The environment gives the replies of the engine to the two calls. The method does not
  assign to any field of the bridge; the model returns the bridge it was given. (The
  parameter \<^verbatim>\<open>intersection_id\<close> is called \<open>target_id\<close> here.)
\<close>

record override_env =
  getProgram_reply :: "string \<Rightarrow> string reply"
  setState_reply :: "string \<Rightarrow> string \<Rightarrow> unit reply"

definition phase_mapping :: "string \<Rightarrow> string" where
  "phase_mapping phase =
     (if phase = ''red'' then ''r''
      else if phase = ''yellow'' then ''y''
      else if phase = ''green'' then ''G''
      else ''G'')"

definition override_traffic_light ::
  "override_env \<Rightarrow> string \<Rightarrow> string \<Rightarrow> 'w world_scheme \<Rightarrow> bridge
     \<Rightarrow> bool \<times> 'w world_scheme \<times> bridge" where
  "override_traffic_light e target_id phase w s =
     (if \<not> connected s then (False, w, s)
      else
        (let state = concat (replicate 4 (phase_mapping phase))
         in case ask (TGetProgram target_id) (getProgram_reply e target_id)
                   (\<lambda>current_program.
                      ask (TSetRedYellowGreenState target_id state)
                        (setState_reply e target_id state) (\<lambda>u. finish ())) w of
              (w', Inl x) \<Rightarrow> (False, w', s)
            | (w', Inr u) \<Rightarrow> (True, w', s)))"

text \<open>
  The route \<^verbatim>\<open>/command/traffic-light\<close>. The body of the request gives the id and,
  optionally, the phase (default \<^verbatim>\<open>'green'\<close>); a request without a JSON body ends in
  the handler of the route with status 500. The reply is the HTTP status and the
  \<^verbatim>\<open>success\<close> field; a failed command is answered with status 200,
  \<^verbatim>\<open>success = False\<close> and the message \<^verbatim>\<open>'Command failed'\<close>.
\<close>

record override_body =
  intersectionId :: string
  phase :: "string option"

datatype route_reply = Reply nat bool

definition route_override_traffic_light ::
  "override_env \<Rightarrow> override_body option \<Rightarrow> 'w world_scheme \<Rightarrow> bridge
     \<Rightarrow> route_reply \<times> 'w world_scheme \<times> bridge" where
  "route_override_traffic_light e body w s =
     (case body of
        None \<Rightarrow> (Reply 500 False, w, s)
      | Some b \<Rightarrow>
          (case override_traffic_light e (intersectionId b)
                  (case phase b of None \<Rightarrow> ''green'' | Some p \<Rightarrow> p) w s of
             (success, w', s') \<Rightarrow> (Reply 200 success, w', s')))"

subsection \<open>Starting an engine process\<close>

text \<open>
  \<^verbatim>\<open>start_sumo_process(config_path, use_gui)\<close>: it stops a running process, checks that
  the configuration exists in the directory \<^verbatim>\<open>AddisAbabaSumo\<close> of the project, spawns the
  engine there and, after a second, looks whether the process is still running. The
  environment gives the outcome of the stop, the project root, \<^verbatim>\<open>os.path.exists\<close>,
  \<^verbatim>\<open>SUMO_HOME\<close>, the result of \<^verbatim>\<open>subprocess.Popen\<close> for a command line and a working
  directory, and whether the process has exited when it is polled.
\<close>

record start_env =
  start_stop :: stop_env
  start_project_root :: string
  start_path_exists :: "string \<Rightarrow> bool"
  start_sumo_home :: "string option"
  popen_reply :: "string list \<Rightarrow> string \<Rightarrow> process reply"
  poll_exited :: bool

definition process_cmd :: "string option \<Rightarrow> bool \<Rightarrow> string \<Rightarrow> nat \<Rightarrow> string list" where
  "process_cmd home use_gui actual_config_path port =
     [case home of
        None \<Rightarrow> sumo_binary_name use_gui
      | Some h \<Rightarrow>
          (if h = [] then sumo_binary_name use_gui
           else path_join (path_join h ''bin'') (sumo_binary_name use_gui @ ''.exe''))]
     @ [''-c'', actual_config_path, ''--remote-port'', str_nat port, ''--step-length'', ''1.0'',
        ''--start'', ''--xml-validation'', ''never'', ''--no-internal-links'', ''--threads'', ''1'',
        ''--step-method.ballistic'', ''--no-warnings'', ''--no-step-log'',
        ''--max-depart-delay'', ''7200'', ''--ignore-route-errors'', ''--eager-insert'',
        ''--time-to-teleport'', ''600'', ''--duration-log.statistics'']"

definition start_sumo_process ::
  "start_env \<Rightarrow> string \<Rightarrow> bool \<Rightarrow> 'w world_scheme \<Rightarrow> bridge \<Rightarrow> bool \<times> 'w world_scheme \<times> bridge" where
  "start_sumo_process e config_path use_gui w s =
     (case stop_sumo_process (start_stop e) w s of
        (w1, s1) \<Rightarrow>
          (let sumo_dir = path_join (start_project_root e) ''AddisAbabaSumo'';
               actual_config_path =
                 (if starts_with ''/'' config_path then config_path else basename config_path);
               full_config_path = path_join sumo_dir actual_config_path
           in if \<not> start_path_exists e full_config_path then (False, w1, s1)
              else
                (case popen_reply e
                        (process_cmd (start_sumo_home e) use_gui actual_config_path (sumo_port s1))
                        sumo_dir of
                   Inl x \<Rightarrow> (False, w1, s1)
                 | Inr p \<Rightarrow> (\<not> poll_exited e, w1, s1\<lparr>sumo_process := Some p\<rparr>))))"

subsection \<open>The routes\<close>

text \<open>
  The requests of the API of \<^verbatim>\<open>sumo_bridge.py\<close>, one constructor per route, with the
  parameters read from the body after the defaults of the route have been applied.
\<close>

datatype request =
    Health
  | SystemInfo
  | Connect
  | StartSumo bool
  | StopSumo
  | StartSumoFull bool
  | Disconnect
  | GetStatus
  | GetVehicles
  | GetIntersections
  | GetRoads
  | GetEmergencyVehicles
  | GetSimulationStats
  | GetAllData
  | CommandTrafficLight "override_body option"
  | PauseSimulation
  | ResumeSimulation

text \<open>
  The environment of a request: the environments of the operations a route may call, the
  frame seen by the queries that a route issues itself, and for the stepping loop of
  \<^verbatim>\<open>/start-sumo-full\<close> the reply of its step number \<open>i\<close> and the frame seen after it.
\<close>

record request_env =
  env_connect :: connect_env
  env_stop :: stop_env
  env_disconnect :: disconnect_env
  env_start :: start_env
  env_override :: override_env
  env_join_exits :: bool
  env_view :: frame
  env_step_reply :: "nat \<Rightarrow> unit reply"
  env_view_after :: "nat \<Rightarrow> frame"

text \<open>
  Queries whose values only go into the reply of a route: they are issued in order, and
  the first one that raises ends the route in its handler.
\<close>

fun query_all :: "(traci_call \<times> bool) list \<Rightarrow> 'w world_scheme \<Rightarrow> 'w world_scheme" where
  "query_all [] w = w"
| "query_all ((c, ok) # qs) w = (if ok then query_all qs (traci_issue c w) else traci_issue c w)"

text \<open>
  \<^verbatim>\<open>
  for _ in range(10):
      traci.simulationStep()
      final_vehicle_count = len(traci.vehicle.getIDList())
      if final_vehicle_count > 0:
          break
      time.sleep(1)
  \<close>
\<close>

fun full_warm_up ::
  "request_env \<Rightarrow> nat \<Rightarrow> nat \<Rightarrow> 'w world_scheme \<Rightarrow> 'w world_scheme \<times> unit reply" where
  "full_warm_up e i 0 w = (w, Inr ())"
| "full_warm_up e i (Suc n) w =
     ask TSimulationStep (env_step_reply e i) (\<lambda>u.
     ask TGetVehicleIDList (vehicle_getIDList (env_view_after e i)) (\<lambda>ids w2.
       if length ids > 0 then (w2, Inr ()) else full_warm_up e (Suc i) n w2)) w"

text \<open>
  The effect of a request on the world and on the bridge. The read routes change
  nothing; \<^verbatim>\<open>/status\<close>, \<^verbatim>\<open>/system-info\<close> and the connecting routes query the engine
  for their reply.
\<close>

definition handle_request ::
  "request_env \<Rightarrow> request \<Rightarrow> 'w world_scheme \<Rightarrow> bridge \<Rightarrow> 'w world_scheme \<times> bridge" where
  "handle_request e r w s =
     (case r of
        Health \<Rightarrow> (w, s)
      | SystemInfo \<Rightarrow>
          (if connected s
           then (query_all [(TGetVehicleIDList, succeeded (vehicle_getIDList (env_view e))),
                            (TGetTime, succeeded (sim_getTime (env_view e)))] w, s)
           else (w, s))
      | Connect \<Rightarrow>
          (case connect_to_sumo (env_connect e) False w s of
             (success, w1, s1) \<Rightarrow>
               (if success
                then (query_all [(TGetTime, succeeded (sim_getTime (env_view e))),
                                 (TGetVehicleIDList, succeeded (vehicle_getIDList (env_view e)))] w1,
                      s1)
                else (w1, s1)))
      | StartSumo gui \<Rightarrow>
          (case connect_to_sumo (env_connect e) gui w s of
             (success, w1, s1) \<Rightarrow>
               (if success
                then (query_all
                        [(TGetTime, succeeded (sim_getTime (env_view e))),
                         (TGetVehicleIDList, succeeded (vehicle_getIDList (env_view e))),
                         (TGetLoadedNumber, succeeded (sim_getLoadedNumber (env_view e))),
                         (TGetDepartedNumber, succeeded (sim_getDepartedNumber (env_view e)))] w1,
                      s1)
                else (w1, s1)))
      | StopSumo \<Rightarrow> stop_sumo_process (env_stop e) w s
      | StartSumoFull gui \<Rightarrow>
          (case start_sumo_process (env_start e) ''dashboard_config.sumocfg'' gui w s of
             (started, w1, s1) \<Rightarrow>
               (if \<not> started then (w1, s1)
                else
                  (case connect_to_sumo (env_connect e) False w1 s1 of
                     (success, w2, s2) \<Rightarrow>
                       (if \<not> success then (w2, s2)
                        else
                          (case ask TGetVehicleIDList (vehicle_getIDList (env_view e))
                                  (\<lambda>ids w3. if length ids = 0 then full_warm_up e 0 10 w3
                                             else (w3, Inr ())) w2 of
                             (w4, Inl x) \<Rightarrow> (w4, s2)
                           | (w4, Inr u) \<Rightarrow>
                               (query_all [(TGetTime, succeeded (sim_getTime (env_view e)))] w4,
                                s2))))))
      | Disconnect \<Rightarrow> disconnect_from_sumo (env_disconnect e) w s
      | GetStatus \<Rightarrow>
          (if connected s
           then (query_all [(TGetTime, succeeded (sim_getTime (env_view e))),
                            (TGetVehicleIDList, succeeded (vehicle_getIDList (env_view e)))] w, s)
           else (w, s))
      | GetVehicles \<Rightarrow> (w, s)
      | GetIntersections \<Rightarrow> (w, s)
      | GetRoads \<Rightarrow> (w, s)
      | GetEmergencyVehicles \<Rightarrow> (w, s)
      | GetSimulationStats \<Rightarrow> (w, s)
      | GetAllData \<Rightarrow> (w, s)
      | CommandTrafficLight body \<Rightarrow> snd (route_override_traffic_light (env_override e) body w s)
      | PauseSimulation \<Rightarrow>
          (if connected s then (w, stop_data_updates (env_join_exits e) s) else (w, s))
      | ResumeSimulation \<Rightarrow>
          (if connected s then start_data_updates w s else (w, s)))"

text \<open>The requests that call \<^verbatim>\<open>connect_to_sumo\<close>.\<close>

fun is_connect_request :: "request \<Rightarrow> bool" where
  "is_connect_request Connect = True"
| "is_connect_request (StartSumo gui) = True"
| "is_connect_request (StartSumoFull gui) = True"
| "is_connect_request r = False"

subsection \<open>Concrete environments for the examples\<close>

text \<open>An engine that accepts every command, and one that knows no traffic light.\<close>

definition accepting_engine :: override_env where
  "accepting_engine =
     \<lparr>getProgram_reply = (\<lambda>tid. Inr ''0''), setState_reply = (\<lambda>tid st. Inr ())\<rparr>"

definition rejecting_engine :: override_env where
  "rejecting_engine =
     \<lparr>getProgram_reply = (\<lambda>tid. Inl (Exn TraCIException ''Traffic light is not known'')),
      setState_reply = (\<lambda>tid st. Inl (Exn TraCIException ''Traffic light is not known''))\<rparr>"

text \<open>
  A tick in which every call succeeds and the simulation time after the step is \<open>t\<close>; the
  status, the bridge and the local variables at the end of a run of the loop (all of its
  result but the log).
\<close>

definition tick_at :: "real \<Rightarrow> tick_env" where
  "tick_at t = \<lparr>pre = quiet_frame, step_reply = Inr (), post = traffic_frame t []\<rparr>"

definition loop_outcome ::
  "loop_status \<times> bridge \<times> loop_state \<times> log_event list \<Rightarrow> loop_status \<times> bridge \<times> loop_state" where
  "loop_outcome r = (fst r, fst (snd r), fst (snd (snd r)))"

text \<open>A tick whose step raises the given exception.\<close>

definition tick_failing :: "exn \<Rightarrow> tick_env" where
  "tick_failing x = \<lparr>pre = quiet_frame, step_reply = Inl x, post = quiet_frame\<rparr>"

text \<open>
  The loss of the channel as the TraCI client reports it. The call during which the
  engine goes away raises \<^verbatim>\<open>FatalTraCIError("connection closed by SUMO")\<close>, and every
  call after it raises \<^verbatim>\<open>FatalTraCIError("Not connected.")\<close>. In \<open>lost_run\<close> the
  engine goes away during the first query of \<^verbatim>\<open>update_vehicles_data\<close> of the first
  tick; three more ticks follow.
\<close>

definition not_connected :: exn where
  "not_connected = Exn FatalTraCIError ''Not connected.''"

definition closed_frame :: frame where
  "closed_frame =
     \<lparr>sim_getTime = Inl not_connected,
      sim_getLoadedNumber = Inl not_connected,
      sim_getDepartedNumber = Inl not_connected,
      sim_getArrivedNumber = Inl not_connected,
      sim_getMinExpectedNumber = Inl not_connected,
      vehicle_getIDList = Inl not_connected,
      vehicle_get = (\<lambda>vid. Inl not_connected),
      trafficlight_getIDList = Inl not_connected,
      trafficlight_get = (\<lambda>tid. Inl not_connected),
      lane_get_queue = (\<lambda>lid. Inl not_connected),
      edge_getIDList = Inl not_connected,
      edge_get = (\<lambda>eid. Inl not_connected),
      lane_get = (\<lambda>lid. Inl not_connected),
      time_time = (\<lambda>site. 1700000001),
      py_hash = (\<lambda>str. 0)\<rparr>"

definition closing_frame :: frame where
  "closing_frame =
     closed_frame\<lparr>sim_getTime := Inr (TNum 1),
                  vehicle_getIDList := Inl (Exn FatalTraCIError ''connection closed by SUMO'')\<rparr>"

definition tick_not_connected :: tick_env where
  "tick_not_connected = \<lparr>pre = closed_frame, step_reply = Inl not_connected, post = closed_frame\<rparr>"

definition lost_run :: "tick_env list" where
  "lost_run =
     [\<lparr>pre = quiet_frame, step_reply = Inr (), post = closing_frame\<rparr>,
      tick_not_connected, tick_not_connected, tick_not_connected]"

text \<open>A command error whose text happens to contain one of the two words.\<close>

definition unknown_vehicle :: exn where
  "unknown_vehicle = Exn TraCIException ''Vehicle socket_7 is not known''"

text \<open>
  An environment in which a connection attempt succeeds at once (five vehicles are loaded
  and have departed), a world in which the directory of the configuration exists, and an
  environment for requests built from them.
\<close>

definition connect_env_ok :: connect_env where
  "connect_env_ok =
     \<lparr>project_root = ''/app'',
      path_exists = (\<lambda>p. True),
      sumo_home = None,
      start_reply = Inr (),
      initial_view = quiet_frame\<lparr>sim_getLoadedNumber := Inr 5, sim_getDepartedNumber := Inr 5\<rparr>,
      warm_step_reply = (\<lambda>i. Inr ()),
      view_after = (\<lambda>i. quiet_frame),
      vanished = {}\<rparr>"

definition world_app :: world where
  "world_app =
     \<lparr>cwd = ''/srv'', dirs = {''/srv'', ''/app/AddisAbabaSumo''}, traci_log = [], signals = [],
      threads_started = 1\<rparr>"

definition request_env0 :: request_env where
  "request_env0 =
     \<lparr>env_connect = connect_env_ok,
      env_stop = stop_env_ok,
      env_disconnect = \<lparr>join_exits = True, close_reply = Inr ()\<rparr>,
      env_start =
        \<lparr>start_stop = stop_env_ok, start_project_root = ''/app'',
         start_path_exists = (\<lambda>p. True), start_sumo_home = None,
         popen_reply = (\<lambda>cmd dir. Inr 4242), poll_exited = False\<rparr>,
      env_override = accepting_engine,
      env_join_exits = True,
      env_view = quiet_frame,
      env_step_reply = (\<lambda>i. Inr ()),
      env_view_after = (\<lambda>i. quiet_frame)\<rparr>"




text \<open>The bridge after a tick at simulation time 1 and a tick whose step loses the
  connection.\<close>

definition halted_bridge :: bridge where
  "halted_bridge =
     fst (snd (update_data_loop [tick_at 1, tick_failing (Exn FatalTraCIError ''Connection closed by SUMO'')]
                 running_bridge))"


section \<open>Properties of the lifecycle operations\<close>

lemma thread_running_simps [simp]:
  "thread_running (s\<lparr>stop_updates := b\<rparr>) = thread_running s"
  "thread_running (s\<lparr>connected := b\<rparr>) = thread_running s"
  "thread_running (s\<lparr>simulation_running := b\<rparr>) = thread_running s"
  "thread_running (s\<lparr>sumo_process := p\<rparr>) = thread_running s"
  "thread_running (s\<lparr>update_thread := Some (Thread a)\<rparr>) = a"
  by (simp_all add: thread_running_def)

text \<open>
  Claim C8. A call of \<^verbatim>\<open>start_data_updates\<close> made while the update thread is alive
  starts no thread and changes neither the bridge (its thread handle and its stop flag
  included) nor the world: it is a no-op.
\<close>

theorem start_data_updates_alive_noop:
  assumes "thread_running s"
  shows "start_data_updates w s = (w, s)"
  using assms by (auto simp: start_data_updates_def thread_running_def)

theorem start_data_updates_alive_noop_witness:
  "thread_running \<lparr>connected = True, simulation_running = True, sumo_process = None,
       update_thread = Some (Thread True), stop_updates = True\<rparr>
   \<and> start_data_updates
       \<lparr>cwd = ''/srv'', dirs = {''/srv''}, traci_log = [], signals = [], threads_started = 1\<rparr>
       \<lparr>connected = True, simulation_running = True, sumo_process = None,
        update_thread = Some (Thread True), stop_updates = True\<rparr>
     = (\<lparr>cwd = ''/srv'', dirs = {''/srv''}, traci_log = [], signals = [], threads_started = 1\<rparr>,
        \<lparr>connected = True, simulation_running = True, sumo_process = None,
         update_thread = Some (Thread True), stop_updates = True\<rparr>)"
proof -
  have h: "thread_running \<lparr>connected = True, simulation_running = True, sumo_process = None,
       update_thread = Some (Thread True), stop_updates = True\<rparr>"
    by (simp add: thread_running_def)
  show ?thesis
    using h start_data_updates_alive_noop [OF h] by simp
qed

text \<open>
  Claim C7 as stated fails: on a bridge that never connected, \<^verbatim>\<open>disconnect_from_sumo\<close>
  calls \<^verbatim>\<open>stop_data_updates\<close> before it looks at \<^verbatim>\<open>connected\<close>, so the stop flag
  of the bridge changes from false to true.
\<close>

theorem disconnect_changes_stop_flag:
  "\<not> connected \<lparr>connected = False, simulation_running = False, sumo_process = None,
        update_thread = None, stop_updates = False\<rparr>
   \<and> snd (disconnect_from_sumo \<lparr>join_exits = True, close_reply = Inr ()\<rparr>
         \<lparr>cwd = ''/srv'', dirs = {''/srv''}, traci_log = [], signals = [], threads_started = 0\<rparr>
         \<lparr>connected = False, simulation_running = False, sumo_process = None,
          update_thread = None, stop_updates = False\<rparr>)
     \<noteq> \<lparr>connected = False, simulation_running = False, sumo_process = None,
         update_thread = None, stop_updates = False\<rparr>"
  by (simp add: disconnect_from_sumo_def stop_data_updates_def thread_running_def)

lemma disconnect_connected_after:
  "connected (snd (disconnect_from_sumo e w s)) \<longleftrightarrow> connected s \<and> \<not> succeeded (close_reply e)"
  by (simp add: disconnect_from_sumo_def stop_data_updates_def Let_def succeeded_def
        split: sum.splits)

lemma disconnect_stop_flag_after: "stop_updates (snd (disconnect_from_sumo e w s))"
  by (simp add: disconnect_from_sumo_def stop_data_updates_def Let_def split: sum.splits)

lemma disconnect_again:
  assumes "stop_updates s1"
  shows "disconnect_from_sumo e' w1 s1 = (w1, s1) \<longleftrightarrow>
           \<not> connected s1 \<and> (thread_running s1 \<longrightarrow> \<not> join_exits e')"
proof (cases "connected s1")
  case True
  have "traci_log (fst (disconnect_from_sumo e' w1 s1)) = traci_log w1 @ [TClose]"
    using True
    by (simp add: disconnect_from_sumo_def stop_data_updates_def Let_def traci_issue_def
          split: sum.splits)
  then have "fst (disconnect_from_sumo e' w1 s1) \<noteq> w1"
    by auto
  then have "disconnect_from_sumo e' w1 s1 \<noteq> (w1, s1)"
    by (metis fst_conv)
  with True show ?thesis by simp
next
  case False
  from assms have same: "s1\<lparr>stop_updates := True\<rparr> = s1"
    by (cases s1) simp
  show ?thesis
  proof (cases "thread_running s1")
    case no: False
    with False same show ?thesis
      by (simp add: disconnect_from_sumo_def stop_data_updates_def Let_def)
  next
    case yes: True
    then have u: "update_thread s1 = Some (Thread True)"
      by (auto simp: thread_running_def split: option.splits) (metis thread.collapse)
    have "(s1\<lparr>update_thread := Some (Thread (\<not> join_exits e'))\<rparr> = s1) = (\<not> join_exits e')"
      using u by (cases s1) auto
    with False yes same show ?thesis
      by (simp add: disconnect_from_sumo_def stop_data_updates_def Let_def)
  qed
qed

text \<open>
  Claim C7, amended. Called with \<^verbatim>\<open>connected = False\<close>, \<^verbatim>\<open>disconnect_from_sumo\<close>
  issues no TraCI call and changes nothing outside the bridge; in the bridge it sets
  \<^verbatim>\<open>stop_updates\<close> and, when the update thread is alive, joins it (the thread is alive
  afterwards exactly when it did not end within the timeout); every other field is
  unchanged. For every bridge, connected or not, the bridge is still connected after a
  call exactly when it was connected and \<^verbatim>\<open>traci.close()\<close> raised, and a second call
  leaves the bridge and the world as the first call left them, so that two calls have the
  effect of one, exactly when the bridge is not connected after the first call and the
  update thread is then not alive or does not end within the timeout of the second join
  either. The method catches every exception, so the model has no error result.
\<close>

theorem disconnect_when_disconnected:
  "(\<not> connected s \<longrightarrow>
      fst (disconnect_from_sumo e w s) = w
      \<and> snd (disconnect_from_sumo e w s) =
           (if thread_running s
            then s\<lparr>stop_updates := True, update_thread := Some (Thread (\<not> join_exits e))\<rparr>
            else s\<lparr>stop_updates := True\<rparr>))
   \<and> (connected (snd (disconnect_from_sumo e w s))
        \<longleftrightarrow> connected s \<and> \<not> succeeded (close_reply e))
   \<and> (disconnect_from_sumo e' (fst (disconnect_from_sumo e w s))
          (snd (disconnect_from_sumo e w s))
        = disconnect_from_sumo e w s
        \<longleftrightarrow> \<not> connected (snd (disconnect_from_sumo e w s))
            \<and> (thread_running (snd (disconnect_from_sumo e w s)) \<longrightarrow> \<not> join_exits e'))"
proof (intro conjI impI)
  assume "\<not> connected s"
  then show "fst (disconnect_from_sumo e w s) = w"
    and "snd (disconnect_from_sumo e w s) =
           (if thread_running s
            then s\<lparr>stop_updates := True, update_thread := Some (Thread (\<not> join_exits e))\<rparr>
            else s\<lparr>stop_updates := True\<rparr>)"
    by (simp_all add: disconnect_from_sumo_def stop_data_updates_def Let_def)
next
  show "connected (snd (disconnect_from_sumo e w s))
        \<longleftrightarrow> connected s \<and> \<not> succeeded (close_reply e)"
    by (rule disconnect_connected_after)
next
  obtain w1 s1 where r: "disconnect_from_sumo e w s = (w1, s1)"
    by (cases "disconnect_from_sumo e w s")
  have "stop_updates s1"
    using disconnect_stop_flag_after [of e w s] r by simp
  from disconnect_again [OF this, of e' w1]
  show "disconnect_from_sumo e' (fst (disconnect_from_sumo e w s))
          (snd (disconnect_from_sumo e w s))
        = disconnect_from_sumo e w s
        \<longleftrightarrow> \<not> connected (snd (disconnect_from_sumo e w s))
            \<and> (thread_running (snd (disconnect_from_sumo e w s)) \<longrightarrow> \<not> join_exits e')"
    using r by simp
qed

theorem disconnect_when_disconnected_witness:
  "\<not> connected (bridge0\<lparr>connected := False\<rparr>)
   \<and> disconnect_from_sumo \<lparr>join_exits = True, close_reply = Inr ()\<rparr> world0
        (bridge0\<lparr>connected := False\<rparr>)
      = (world0, bridge0\<lparr>connected := False, update_thread := Some (Thread False),
                         stop_updates := True\<rparr>)
   \<and> connected bridge0
   \<and> disconnect_from_sumo \<lparr>join_exits = True, close_reply = Inr ()\<rparr> world0 bridge0
      = (world0\<lparr>traci_log := [TClose]\<rparr>,
         bridge0\<lparr>connected := False, simulation_running := False,
                 update_thread := Some (Thread False), stop_updates := True\<rparr>)
   \<and> disconnect_from_sumo \<lparr>join_exits = True, close_reply = Inr ()\<rparr>
        (fst (disconnect_from_sumo \<lparr>join_exits = True, close_reply = Inr ()\<rparr> world0 bridge0))
        (snd (disconnect_from_sumo \<lparr>join_exits = True, close_reply = Inr ()\<rparr> world0 bridge0))
      = disconnect_from_sumo \<lparr>join_exits = True, close_reply = Inr ()\<rparr> world0 bridge0
   \<and> connected (snd (disconnect_from_sumo
        \<lparr>join_exits = True, close_reply = Inl (Exn FatalTraCIError ''connection closed by SUMO'')\<rparr>
        world0 bridge0))
   \<and> disconnect_from_sumo \<lparr>join_exits = True, close_reply = Inr ()\<rparr>
        (fst (disconnect_from_sumo
           \<lparr>join_exits = True, close_reply = Inl (Exn FatalTraCIError ''connection closed by SUMO'')\<rparr>
           world0 bridge0))
        (snd (disconnect_from_sumo
           \<lparr>join_exits = True, close_reply = Inl (Exn FatalTraCIError ''connection closed by SUMO'')\<rparr>
           world0 bridge0))
      \<noteq> disconnect_from_sumo
           \<lparr>join_exits = True, close_reply = Inl (Exn FatalTraCIError ''connection closed by SUMO'')\<rparr>
           world0 bridge0
   \<and> traci_log (fst (disconnect_from_sumo \<lparr>join_exits = True, close_reply = Inr ()\<rparr>
        (fst (disconnect_from_sumo
           \<lparr>join_exits = True, close_reply = Inl (Exn FatalTraCIError ''connection closed by SUMO'')\<rparr>
           world0 bridge0))
        (snd (disconnect_from_sumo
           \<lparr>join_exits = True, close_reply = Inl (Exn FatalTraCIError ''connection closed by SUMO'')\<rparr>
           world0 bridge0))))
      = [TClose, TClose]"
proof -
  let ?ok = "\<lparr>join_exits = True, close_reply = Inr ()\<rparr>"
  let ?bad = "\<lparr>join_exits = True, close_reply = Inl (Exn FatalTraCIError ''connection closed by SUMO'')\<rparr>"
  have h: "\<not> connected (bridge0\<lparr>connected := False\<rparr>)"
    by simp
  have c: "connected bridge0"
    by (simp add: bridge0_def)
  have one: "disconnect_from_sumo ?ok world0 bridge0
      = (world0\<lparr>traci_log := [TClose]\<rparr>,
         bridge0\<lparr>connected := False, simulation_running := False,
                 update_thread := Some (Thread False), stop_updates := True\<rparr>)"
    by (simp add: disconnect_from_sumo_def stop_data_updates_def thread_running_def
          traci_issue_def world0_def bridge0_def)
  have after_ok: "\<not> connected (snd (disconnect_from_sumo ?ok world0 bridge0))
        \<and> \<not> thread_running (snd (disconnect_from_sumo ?ok world0 bridge0))"
    unfolding one by (simp add: thread_running_def bridge0_def)
  have fails: "\<not> succeeded (close_reply ?bad)"
    by (simp add: succeeded_def)
  have log2: "traci_log (fst (disconnect_from_sumo ?ok
                  (fst (disconnect_from_sumo ?bad world0 bridge0))
                  (snd (disconnect_from_sumo ?bad world0 bridge0)))) = [TClose, TClose]"
    by (simp add: disconnect_from_sumo_def stop_data_updates_def thread_running_def
          traci_issue_def world0_def bridge0_def)
  from disconnect_when_disconnected [of "bridge0\<lparr>connected := False\<rparr>" ?ok world0 ?ok, THEN conjunct1]
    h
  have first: "disconnect_from_sumo ?ok world0 (bridge0\<lparr>connected := False\<rparr>)
      = (world0, bridge0\<lparr>connected := False, update_thread := Some (Thread False),
                         stop_updates := True\<rparr>)"
    by (simp add: prod_eq_iff thread_running_def bridge0_def)
  from disconnect_when_disconnected [of bridge0 ?ok world0 ?ok, THEN conjunct2, THEN conjunct2]
    after_ok
  have second: "disconnect_from_sumo ?ok (fst (disconnect_from_sumo ?ok world0 bridge0))
              (snd (disconnect_from_sumo ?ok world0 bridge0))
            = disconnect_from_sumo ?ok world0 bridge0"
    by blast
  from disconnect_when_disconnected [of bridge0 ?bad world0 ?ok, THEN conjunct2, THEN conjunct1]
    c fails
  have still: "connected (snd (disconnect_from_sumo ?bad world0 bridge0))"
    by blast
  from disconnect_when_disconnected [of bridge0 ?bad world0 ?ok, THEN conjunct2, THEN conjunct2]
    still
  have differ: "disconnect_from_sumo ?ok (fst (disconnect_from_sumo ?bad world0 bridge0))
              (snd (disconnect_from_sumo ?bad world0 bridge0))
            \<noteq> disconnect_from_sumo ?bad world0 bridge0"
    by blast
  show ?thesis
    using h first c one second still differ log2 by simp
qed

text \<open>
  Claim C5 as stated fails. The bridge is connected and owns a process. During the first
  stop \<^verbatim>\<open>traci.close()\<close> raises; \<^verbatim>\<open>disconnect_from_sumo\<close> logs the exception and
  leaves \<^verbatim>\<open>connected\<close> set, and the process is terminated. During the second stop
  \<^verbatim>\<open>connected\<close> is still true, the close is attempted again and succeeds: the
  connection flags after two stops differ from the flags after one.
\<close>

theorem stop_twice_differs:
  "connected (snd (stop_sumo_process stop_env_close_fails world0 bridge0))
   \<and> sumo_process (snd (stop_sumo_process stop_env_close_fails world0 bridge0)) = None
   \<and> \<not> connected (snd (stop_sumo_process stop_env_ok
          (fst (stop_sumo_process stop_env_close_fails world0 bridge0))
          (snd (stop_sumo_process stop_env_close_fails world0 bridge0))))"
  by (simp add: stop_sumo_process_def disconnect_from_sumo_def stop_data_updates_def
        terminate_process_def thread_running_def traci_issue_def send_signal_def
        stop_env_close_fails_def stop_env_ok_def world0_def bridge0_def)

lemma disconnect_keeps_process:
  "sumo_process (snd (disconnect_from_sumo e w s)) = sumo_process s"
  by (simp add: disconnect_from_sumo_def stop_data_updates_def Let_def split: sum.splits)

lemma disconnect_clean_flags:
  "close_reply e = Inr () \<Longrightarrow> \<not> connected (snd (disconnect_from_sumo e w s))"
  by (simp add: disconnect_from_sumo_def stop_data_updates_def Let_def)

lemma terminate_process_connected:
  "connected (snd (terminate_process e p w s)) = connected s"
  by (simp add: terminate_process_def Let_def split: sum.splits wait_result.splits)

lemma terminate_process_clean:
  "terminate_reply e = Inr () \<Longrightarrow>
   wait_reply e = Exited \<or>
     wait_reply e = TimeoutExpired \<and> kill_reply e = Inr () \<and> wait_again_reply e = Inr () \<Longrightarrow>
   sumo_process (snd (terminate_process e p w s)) = None"
  by (auto simp: terminate_process_def Let_def)

lemma stop_idle_noop:
  "\<not> connected s \<Longrightarrow> sumo_process s = None \<Longrightarrow> stop_sumo_process e w s = (w, s)"
  by (simp add: stop_sumo_process_def)

lemma stop_clean_result:
  assumes "stop_raises_nothing e s"
  shows "\<not> connected (snd (stop_sumo_process e w s))
       \<and> sumo_process (snd (stop_sumo_process e w s)) = None"
proof (cases "connected s")
  case True
  obtain w1 s1 where d: "disconnect_from_sumo (disc e) w s = (w1, s1)"
    by (cases "disconnect_from_sumo (disc e) w s")
  from True assms have c: "close_reply (disc e) = Inr ()"
    by (simp add: stop_raises_nothing_def)
  have s1c: "\<not> connected s1"
    using disconnect_clean_flags [OF c, of w s] d by simp
  have s1p: "sumo_process s1 = sumo_process s"
    using disconnect_keeps_process [of "disc e" w s] d by simp
  show ?thesis
  proof (cases "sumo_process s")
    case None
    with True d s1c s1p show ?thesis by (simp add: stop_sumo_process_def)
  next
    case (Some p)
    with assms have t: "terminate_reply e = Inr ()"
      and k: "wait_reply e = Exited \<or>
         wait_reply e = TimeoutExpired \<and> kill_reply e = Inr () \<and> wait_again_reply e = Inr ()"
      by (simp_all add: stop_raises_nothing_def)
    from True d Some s1p
    have "stop_sumo_process e w s = terminate_process e p w1 s1"
      by (simp add: stop_sumo_process_def)
    then show ?thesis
      using terminate_process_clean [OF t k, of p w1 s1]
        terminate_process_connected [of e p w1 s1] s1c by simp
  qed
next
  case False
  show ?thesis
  proof (cases "sumo_process s")
    case None
    with False show ?thesis by (simp add: stop_sumo_process_def)
  next
    case (Some p)
    with assms have t: "terminate_reply e = Inr ()"
      and k: "wait_reply e = Exited \<or>
         wait_reply e = TimeoutExpired \<and> kill_reply e = Inr () \<and> wait_again_reply e = Inr ()"
      by (simp_all add: stop_raises_nothing_def)
    from False Some
    have "stop_sumo_process e w s = terminate_process e p w s"
      by (simp add: stop_sumo_process_def)
    then show ?thesis
      using terminate_process_clean [OF t k, of p w s]
        terminate_process_connected [of e p w s] False by simp
  qed
qed

text \<open>
  Claim C5, amended. If no call of the first stop raises (the close of the session, when
  connected, and the termination of the process, when there is one), then a second stop,
  whatever its environment, changes neither the bridge nor the world: two stops in a row
  leave the state of one. A stop of a bridge that is not connected and has no process
  handle changes nothing, sends no signal and issues no TraCI call.
\<close>

theorem stop_twice_same:
  "(stop_raises_nothing e1 s \<longrightarrow>
      (case stop_sumo_process e1 w s of (w1, s1) \<Rightarrow> stop_sumo_process e2 w1 s1 = (w1, s1)))
   \<and> (\<not> connected s \<and> sumo_process s = None \<longrightarrow> stop_sumo_process e2 w s = (w, s))"
proof (intro conjI impI)
  assume a: "stop_raises_nothing e1 s"
  obtain w1 s1 where r: "stop_sumo_process e1 w s = (w1, s1)"
    by (cases "stop_sumo_process e1 w s")
  from stop_clean_result [OF a, of w] r
  have "\<not> connected s1" and "sumo_process s1 = None" by simp_all
  then have "stop_sumo_process e2 w1 s1 = (w1, s1)" by (rule stop_idle_noop)
  with r show "case stop_sumo_process e1 w s of (w1, s1) \<Rightarrow> stop_sumo_process e2 w1 s1 = (w1, s1)"
    by simp
next
  assume "\<not> connected s \<and> sumo_process s = None"
  then show "stop_sumo_process e2 w s = (w, s)" by (simp add: stop_idle_noop)
qed

theorem stop_twice_same_witness:
  "stop_raises_nothing
      \<lparr>disc = \<lparr>join_exits = True, close_reply = Inr ()\<rparr>,
       terminate_reply = Inr (), wait_reply = TimeoutExpired, kill_reply = Inr (),
       wait_again_reply = Inr ()\<rparr>
      \<lparr>connected = True, simulation_running = True, sumo_process = Some 4242,
       update_thread = Some (Thread True), stop_updates = False\<rparr>
   \<and> stop_sumo_process
      \<lparr>disc = \<lparr>join_exits = True, close_reply = Inr ()\<rparr>,
       terminate_reply = Inr (), wait_reply = TimeoutExpired, kill_reply = Inr (),
       wait_again_reply = Inr ()\<rparr>
      \<lparr>cwd = ''/srv'', dirs = {''/srv''}, traci_log = [], signals = [], threads_started = 1\<rparr>
      \<lparr>connected = True, simulation_running = True, sumo_process = Some 4242,
       update_thread = Some (Thread True), stop_updates = False\<rparr>
     = (\<lparr>cwd = ''/srv'', dirs = {''/srv''}, traci_log = [TClose],
         signals = [(4242, SIGTERM), (4242, SIGKILL)], threads_started = 1\<rparr>,
        \<lparr>connected = False, simulation_running = False, sumo_process = None,
         update_thread = Some (Thread False), stop_updates = True\<rparr>)
   \<and> stop_sumo_process
      \<lparr>disc = \<lparr>join_exits = False, close_reply = Inl (Exn OtherException ''x'')\<rparr>,
       terminate_reply = Inl (Exn OtherException ''x''), wait_reply = WaitError (Exn OtherException ''x''), kill_reply = Inl (Exn OtherException ''x''),
       wait_again_reply = Inl (Exn OtherException ''x'')\<rparr>
      \<lparr>cwd = ''/srv'', dirs = {''/srv''}, traci_log = [TClose],
         signals = [(4242, SIGTERM), (4242, SIGKILL)], threads_started = 1\<rparr>
      \<lparr>connected = False, simulation_running = False, sumo_process = None,
         update_thread = Some (Thread False), stop_updates = True\<rparr>
     = (\<lparr>cwd = ''/srv'', dirs = {''/srv''}, traci_log = [TClose],
         signals = [(4242, SIGTERM), (4242, SIGKILL)], threads_started = 1\<rparr>,
        \<lparr>connected = False, simulation_running = False, sumo_process = None,
         update_thread = Some (Thread False), stop_updates = True\<rparr>)
   \<and> \<not> connected \<lparr>connected = False, simulation_running = False, sumo_process = None,
         update_thread = None, stop_updates = False\<rparr>
   \<and> stop_sumo_process stop_env_ok world0
        \<lparr>connected = False, simulation_running = False, sumo_process = None,
         update_thread = None, stop_updates = False\<rparr>
     = (world0, \<lparr>connected = False, simulation_running = False, sumo_process = None,
         update_thread = None, stop_updates = False\<rparr>)"
proof -
  let ?e1 = "\<lparr>disc = \<lparr>join_exits = True, close_reply = Inr ()\<rparr>,
       terminate_reply = Inr (), wait_reply = TimeoutExpired, kill_reply = Inr (),
       wait_again_reply = Inr ()\<rparr>"
  let ?e2 = "\<lparr>disc = \<lparr>join_exits = False, close_reply = Inl (Exn OtherException ''x'')\<rparr>,
       terminate_reply = Inl (Exn OtherException ''x''), wait_reply = WaitError (Exn OtherException ''x''), kill_reply = Inl (Exn OtherException ''x''),
       wait_again_reply = Inl (Exn OtherException ''x'')\<rparr>"
  let ?w = "\<lparr>cwd = ''/srv'', dirs = {''/srv''}, traci_log = [], signals = [], threads_started = 1\<rparr>"
  let ?s = "\<lparr>connected = True, simulation_running = True, sumo_process = Some 4242,
       update_thread = Some (Thread True), stop_updates = False\<rparr>"
  have h: "stop_raises_nothing ?e1 ?s"
    by (simp add: stop_raises_nothing_def)
  have one: "stop_sumo_process ?e1 ?w ?s
     = (\<lparr>cwd = ''/srv'', dirs = {''/srv''}, traci_log = [TClose],
         signals = [(4242, SIGTERM), (4242, SIGKILL)], threads_started = 1\<rparr>,
        \<lparr>connected = False, simulation_running = False, sumo_process = None,
         update_thread = Some (Thread False), stop_updates = True\<rparr>)"
    by (simp add: stop_sumo_process_def disconnect_from_sumo_def stop_data_updates_def
        terminate_process_def thread_running_def traci_issue_def send_signal_def)
  let ?idle = "\<lparr>connected = False, simulation_running = False, sumo_process = None,
         update_thread = None, stop_updates = False\<rparr>"
  have i: "\<not> connected ?idle \<and> sumo_process ?idle = None"
    by simp
  from stop_twice_same [where s = ?idle and w = world0 and ?e2.0 = stop_env_ok, THEN conjunct2] i
  have idle: "stop_sumo_process stop_env_ok world0 ?idle = (world0, ?idle)"
    by blast
  from stop_twice_same [where ?e1.0 = ?e1 and s = ?s and w = ?w and ?e2.0 = ?e2] h one idle
  show ?thesis by simp
qed

section \<open>The working directory across a connection attempt\<close>

lemma traci_issue_place [simp]: "place (traci_issue c w) = place w"
  by (simp add: traci_issue_def place_def)




lemma finish_place [simp]: "place (fst (finish v w)) = place w"
  by (simp add: finish_def)




lemma disconnect_place [simp]: "place (fst (disconnect_from_sumo e w s)) = place w"
  by (simp add: disconnect_from_sumo_def Let_def place_def traci_issue_def split: sum.splits)










section \<open>The roads snapshot\<close>

lemma sample_road_id:
  "sample_road f edge_id = Some r \<Longrightarrow> road_id r = edge_id \<and> \<not> is_internal_edge edge_id"
  by (auto simp: sample_road_def Let_def split: if_splits sum.splits)

lemma map_filter_length: "length (List.map_filter g xs) \<le> length xs"
  by (simp add: List.map_filter_def)

lemma map_filter_member:
  "y \<in> set (List.map_filter g xs) \<Longrightarrow> \<exists>x \<in> set xs. g x = Some y"
  by (auto simp: List.map_filter_def)

lemma roads_published_bounded:
  assumes "edge_getIDList f = Inr edge_ids"
  shows "length (roads_data (update_roads_data f s)) \<le> 50
       \<and> (\<forall>r \<in> set (roads_data (update_roads_data f s)).
             road_id r \<in> set (take 50 edge_ids) \<and> \<not> is_internal_edge (road_id r))"
proof -
  have eq: "roads_data (update_roads_data f s) = List.map_filter (sample_road f) (take 50 edge_ids)"
    using assms by (simp add: update_roads_data_def)
  have "length (List.map_filter (sample_road f) (take 50 edge_ids)) \<le> length (take 50 edge_ids)"
    by (rule map_filter_length)
  then have len: "length (roads_data (update_roads_data f s)) \<le> 50"
    using eq by simp
  have mem: "road_id r \<in> set (take 50 edge_ids) \<and> \<not> is_internal_edge (road_id r)"
    if "r \<in> set (roads_data (update_roads_data f s))" for r
  proof -
    from that eq obtain x where x: "x \<in> set (take 50 edge_ids)" "sample_road f x = Some r"
      using map_filter_member [of r "sample_road f" "take 50 edge_ids"] by auto
    with sample_road_id [of f x r] show ?thesis by simp
  qed
  from len mem show ?thesis by blast
qed

lemma update_roads_bounded:
  "roads_bounded (roads_data s) \<Longrightarrow> roads_bounded (roads_data (update_roads_data f s))"
proof (cases "edge_getIDList f")
  case (Inl x)
  assume "roads_bounded (roads_data s)"
  with Inl show ?thesis by (simp add: update_roads_data_def)
next
  case (Inr edge_ids)
  from roads_published_bounded [OF Inr, of s]
  show ?thesis by (simp add: roads_bounded_def list_all_iff)
qed

lemma roads_data_other_updates [simp]:
  "roads_data (update_vehicles_data f s) = roads_data s"
  "roads_data (update_intersections_data f s) = roads_data s"
  "roads_data (update_simulation_stats f s) = roads_data s"
  by (simp_all add: update_vehicles_data_def update_intersections_data_def
        update_simulation_stats_def split: sum.splits prod.splits)

lemma update_simulation_data_roads:
  "roads_bounded (roads_data s) \<Longrightarrow> roads_bounded (roads_data (update_simulation_data f s))"
  using update_roads_bounded [of "update_intersections_data f (update_vehicles_data f s)" f]
  by (simp add: update_simulation_data_def Let_def split: sum.splits)

lemma tick_roads:
  "roads_bounded (roads_data s) \<Longrightarrow> roads_bounded (roads_data (fst (snd (tick e s l))))"
  by (simp add: tick_def Let_def update_simulation_data_roads
        split: sum.splits prod.splits option.splits)

lemma loop_iteration_roads:
  "roads_bounded (roads_data s) \<Longrightarrow> roads_bounded (roads_data (fst (snd (loop_iteration e s l))))"
proof -
  assume a: "roads_bounded (roads_data s)"
  obtain r s' l' lg where t: "tick e s l = (r, s', l', lg)"
    by (cases "tick e s l") auto
  have "roads_bounded (roads_data s')"
    using tick_roads [OF a, of e l] t by simp
  then show ?thesis
    using a t by (cases r) (simp_all add: loop_iteration_def)
qed

lemma run_loop_roads:
  "roads_bounded (roads_data s) \<Longrightarrow> roads_bounded (roads_data (fst (snd (run_loop es s l lg))))"
proof (induction es arbitrary: s l lg)
  case Nil
  then show ?case by simp
next
  case (Cons e es)
  obtain st s' l' lg' where i: "loop_iteration e s l = (st, s', l', lg')"
    by (cases "loop_iteration e s l") auto
  have b: "roads_bounded (roads_data s')"
    using loop_iteration_roads [OF Cons.prems, of e l] i by simp
  show ?case
  proof (cases st)
    case Looping
    with i Cons.IH [OF b] show ?thesis by simp
  next
    case ExitedByCondition
    with i b show ?thesis by simp
  next
    case (HaltedByError x)
    with i b show ?thesis by simp
  qed
qed

lemma update_data_loop_roads:
  "roads_bounded (roads_data s) \<Longrightarrow>
   roads_bounded (get_roads (fst (snd (update_data_loop es s))))"
proof -
  assume a: "roads_bounded (roads_data s)"
  obtain st s' l' lg where r: "run_loop es s \<lparr>update_count = 0, last_time = - 1\<rparr> [] = (st, s', l', lg)"
    by (cases "run_loop es s \<lparr>update_count = 0, last_time = - 1\<rparr> []") auto
  have "roads_bounded (roads_data s')"
    using run_loop_roads [OF a, of es "\<lparr>update_count = 0, last_time = - 1\<rparr>" "[]"] r by simp
  then show ?thesis
    using r by (simp add: update_data_loop_def get_roads_def thread_exit_def split: option.splits)
qed

lemma sample_road_some:
  assumes "\<not> is_internal_edge x" and "edge_get f x = Inr raw"
  shows "\<exists>r. sample_road f x = Some r \<and> road_id r = x"
  using assms by (simp add: sample_road_def Let_def)

lemma map_filter_all_some:
  assumes "\<forall>x \<in> set xs. \<exists>y. g x = Some y \<and> h y = x"
  shows "map h (List.map_filter g xs) = xs"
  using assms by (induction xs) (auto simp: List.map_filter_simps)

lemma edge_name_plain: "\<not> is_internal_edge (edge_name n)"
  by (simp add: is_internal_edge_def edge_name_def)

lemma crowded_published:
  "map road_id (roads_data (update_roads_data crowded_frame s)) = map edge_name [0 ..< 49]"
proof -
  have t: "take 50 crowded_ids = '':j1_0'' # map edge_name [0 ..< 49]"
    by (simp add: crowded_ids_def take_map)
  have i: "sample_road crowded_frame '':j1_0'' = None"
    by (simp add: sample_road_def is_internal_edge_def)
  have "\<forall>x \<in> set (map edge_name [0 ..< 49]).
          \<exists>y. sample_road crowded_frame x = Some y \<and> road_id y = x"
    using sample_road_some [OF edge_name_plain, of crowded_frame _ edge_raw0]
    by (auto simp: crowded_frame_def)
  from map_filter_all_some [OF this]
  have "map road_id (List.map_filter (sample_road crowded_frame) (take 50 crowded_ids))
          = map edge_name [0 ..< 49]"
    unfolding t by (simp add: List.map_filter_simps i)
  then show ?thesis
    by (simp add: update_roads_data_def crowded_frame_def)
qed

text \<open>
  Claim C10. A roads snapshot published by \<^verbatim>\<open>update_roads_data\<close> has at most 50
  entries, each of them made from one of the first 50 edge ids the engine returned and none
  from an internal edge (an id that begins with a colon); when the id list cannot be read
  the previous snapshot stays. Hence, whatever the engine answers over any number of ticks
  of the polling loop, the snapshot served by the roads endpoint stays within these bounds
  (it is empty when the bridge is created).
\<close>

theorem roads_snapshot_bounded:
  "(case edge_getIDList f of
      Inl x \<Rightarrow> roads_data (update_roads_data f s) = roads_data s
    | Inr edge_ids \<Rightarrow>
        length (roads_data (update_roads_data f s)) \<le> 50
        \<and> (\<forall>r \<in> set (roads_data (update_roads_data f s)).
              road_id r \<in> set (take 50 edge_ids) \<and> \<not> is_internal_edge (road_id r)))
   \<and> (roads_bounded (roads_data s0) \<longrightarrow>
        roads_bounded (get_roads (fst (snd (update_data_loop es s0)))))"
proof (intro conjI impI)
  show "case edge_getIDList f of
      Inl x \<Rightarrow> roads_data (update_roads_data f s) = roads_data s
    | Inr edge_ids \<Rightarrow>
        length (roads_data (update_roads_data f s)) \<le> 50
        \<and> (\<forall>r \<in> set (roads_data (update_roads_data f s)).
              road_id r \<in> set (take 50 edge_ids) \<and> \<not> is_internal_edge (road_id r))"
  proof (cases "edge_getIDList f")
    case (Inl x)
    then show ?thesis by (simp add: update_roads_data_def)
  next
    case (Inr edge_ids)
    with roads_published_bounded [OF Inr, of s] show ?thesis by simp
  qed
next
  assume "roads_bounded (roads_data s0)"
  then show "roads_bounded (get_roads (fst (snd (update_data_loop es s0))))"
    by (rule update_data_loop_roads)
qed

theorem roads_snapshot_bounded_witness:
  "edge_getIDList crowded_frame = Inr crowded_ids
   \<and> length crowded_ids = 61
   \<and> list_all (\<lambda>x. succeeded (edge_get crowded_frame x)) crowded_ids
   \<and> take 50 crowded_ids = '':j1_0'' # map edge_name [0 ..< 49]
   \<and> map road_id (roads_data (update_roads_data crowded_frame running_bridge))
       = map edge_name [0 ..< 49]
   \<and> length (roads_data (update_roads_data crowded_frame running_bridge)) = 49
   \<and> edge_name 49 = ''e49'' \<and> ''e49'' \<in> set crowded_ids \<and> \<not> is_internal_edge ''e49''
   \<and> ''e49'' \<notin> set (map road_id (roads_data (update_roads_data crowded_frame running_bridge)))
   \<and> roads_bounded (roads_data running_bridge)
   \<and> roads_bounded (get_roads (fst (snd (update_data_loop [crowded_tick, crowded_tick]
                                           running_bridge))))"
proof -
  have ids: "edge_getIDList crowded_frame = Inr crowded_ids"
    by (simp add: crowded_frame_def)
  have len: "length crowded_ids = 61"
    by (simp add: crowded_ids_def)
  have answers: "list_all (\<lambda>x. succeeded (edge_get crowded_frame x)) crowded_ids"
    by (simp add: crowded_frame_def succeeded_def list_all_iff)
  have first50: "take 50 crowded_ids = '':j1_0'' # map edge_name [0 ..< 49]"
    by (simp add: crowded_ids_def take_map)
  note published = crowded_published [of running_bridge]
  have n: "length (roads_data (update_roads_data crowded_frame running_bridge)) = 49"
    using arg_cong [OF published, of length] by simp
  have name: "edge_name 49 = ''e49''"
    by code_simp
  have beyond: "''e49'' \<in> set crowded_ids" "\<not> is_internal_edge ''e49''"
    "''e49'' \<notin> set (map edge_name [0 ..< 49])"
    by code_simp+
  have start: "roads_bounded (roads_data running_bridge)"
    by (simp add: roads_bounded_def running_bridge_def init_bridge_def)
  note t = roads_snapshot_bounded
    [where f = crowded_frame and s = running_bridge and ?s0.0 = running_bridge
       and es = "[crowded_tick, crowded_tick]"]
  from t [THEN conjunct1] ids
  have cap: "length (roads_data (update_roads_data crowded_frame running_bridge)) \<le> 50"
    by simp
  from t [THEN conjunct2] start
  have kept: "roads_bounded (get_roads (fst (snd (update_data_loop [crowded_tick, crowded_tick]
                                                    running_bridge))))"
    by blast
  show ?thesis
    using ids len answers first50 published n name beyond start cap kept by simp
qed

section \<open>The vehicle lists and the statistics\<close>

lemmas frame_defs = quiet_frame_def mixed_frame_def traffic_frame_def unreadable_frame_def
  car_raw_def running_bridge_def init_bridge_def

lemmas string_defs = is_emergency_vehicle_def emergency_keywords_def lower_def lower_char_def
  get_emergency_type_def map_vehicle_type_def

lemmas update_defs = update_simulation_data_def update_vehicles_data_def
  update_intersections_data_def update_roads_data_def update_simulation_stats_def
  make_vehicle_data_def make_emergency_data_def vehicle_data.defs emergency_data.defs

lemma collect_vehicles_acc:
  "collect_vehicles f ids vs es =
     (vs @ List.map_filter
             (\<lambda>vid. case vehicle_get f vid of
                      Inl x \<Rightarrow> None
                    | Inr raw \<Rightarrow>
                        if is_emergency_vehicle vid (veh_type_id raw) then None
                        else Some (make_vehicle_data f vid raw)) ids,
      es @ List.map_filter
             (\<lambda>vid. case vehicle_get f vid of
                      Inl x \<Rightarrow> None
                    | Inr raw \<Rightarrow>
                        if is_emergency_vehicle vid (veh_type_id raw)
                        then Some (make_emergency_data (make_vehicle_data f vid raw) vid
                                     (veh_type_id raw))
                        else None) ids)"
proof (induction ids arbitrary: vs es)
  case Nil
  show ?case by (simp add: List.map_filter_simps)
next
  case (Cons vid ids)
  show ?case
  proof (cases "vehicle_get f vid")
    case (Inl x)
    then show ?thesis
      using Cons.IH [of vs es] by (simp add: List.map_filter_simps)
  next
    case (Inr raw)
    then show ?thesis
      using Cons.IH by (simp add: List.map_filter_simps Let_def)
  qed
qed

lemma update_vehicles_data_lists:
  assumes "vehicle_getIDList f = Inr ids"
  shows "vehicles_data (update_vehicles_data f s) =
           List.map_filter
             (\<lambda>vid. case vehicle_get f vid of
                      Inl x \<Rightarrow> None
                    | Inr raw \<Rightarrow>
                        if is_emergency_vehicle vid (veh_type_id raw) then None
                        else Some (make_vehicle_data f vid raw)) ids"
    and "emergency_vehicles_data (update_vehicles_data f s) =
           List.map_filter
             (\<lambda>vid. case vehicle_get f vid of
                      Inl x \<Rightarrow> None
                    | Inr raw \<Rightarrow>
                        if is_emergency_vehicle vid (veh_type_id raw)
                        then Some (make_emergency_data (make_vehicle_data f vid raw) vid
                                     (veh_type_id raw))
                        else None) ids"
  using assms by (simp_all add: update_vehicles_data_def collect_vehicles_acc)

lemma vehicle_id_make [simp]:
  "vehicle_id (make_vehicle_data f vid raw) = vid"
  "vehicle_id (make_emergency_data (make_vehicle_data f vid raw) vid vt) = vid"
  by (simp_all add: make_vehicle_data_def make_emergency_data_def vehicle_data.defs)

lemma map_filter_ids:
  assumes "\<And>x y. g x = Some y \<Longrightarrow> h y = x"
  shows "map h (List.map_filter g xs) = filter (\<lambda>x. g x \<noteq> None) xs"
  using assms by (induction xs) (auto simp: List.map_filter_simps)

lemma vehicles_partition_ids:
  assumes ids: "vehicle_getIDList f = Inr ids"
  shows "map vehicle_id (vehicles_data (update_vehicles_data f s)) =
           filter (\<lambda>vid. case vehicle_get f vid of
                           Inl x \<Rightarrow> False
                         | Inr raw \<Rightarrow> \<not> is_emergency_vehicle vid (veh_type_id raw)) ids"
    and "map vehicle_id (emergency_vehicles_data (update_vehicles_data f s)) =
           filter (\<lambda>vid. case vehicle_get f vid of
                           Inl x \<Rightarrow> False
                         | Inr raw \<Rightarrow> is_emergency_vehicle vid (veh_type_id raw)) ids"
proof -
  show "map vehicle_id (vehicles_data (update_vehicles_data f s)) =
           filter (\<lambda>vid. case vehicle_get f vid of
                           Inl x \<Rightarrow> False
                         | Inr raw \<Rightarrow> \<not> is_emergency_vehicle vid (veh_type_id raw)) ids"
    unfolding update_vehicles_data_lists(1) [OF ids]
    by (subst map_filter_ids)
       (auto split: sum.splits if_splits intro!: filter_cong)
  show "map vehicle_id (emergency_vehicles_data (update_vehicles_data f s)) =
           filter (\<lambda>vid. case vehicle_get f vid of
                           Inl x \<Rightarrow> False
                         | Inr raw \<Rightarrow> is_emergency_vehicle vid (veh_type_id raw)) ids"
    unfolding update_vehicles_data_lists(2) [OF ids]
    by (subst map_filter_ids)
       (auto split: sum.splits if_splits intro!: filter_cong)
qed

lemma vehicles_partition_members:
  assumes ids: "vehicle_getIDList f = Inr ids"
    and m: "vid \<in> set ids" "vehicle_get f vid = Inr raw"
  shows "(vid \<in> set (map vehicle_id (emergency_vehicles_data (update_vehicles_data f s))))
            = is_emergency_vehicle vid (veh_type_id raw)"
    and "(vid \<in> set (map vehicle_id (vehicles_data (update_vehicles_data f s))))
            = (\<not> is_emergency_vehicle vid (veh_type_id raw))"
  unfolding vehicles_partition_ids [OF ids] using m by simp_all

lemma vehicles_partition_length:
  assumes ids: "vehicle_getIDList f = Inr ids"
  shows "length (vehicles_data (update_vehicles_data f s))
         + length (emergency_vehicles_data (update_vehicles_data f s))
         = length (filter (\<lambda>vid. succeeded (vehicle_get f vid)) ids)"
proof -
  have "length (map vehicle_id (vehicles_data (update_vehicles_data f s)))
        + length (map vehicle_id (emergency_vehicles_data (update_vehicles_data f s)))
        = length (filter (\<lambda>vid. succeeded (vehicle_get f vid)) ids)"
    unfolding vehicles_partition_ids [OF ids]
    by (induction ids) (auto simp: succeeded_def split: sum.splits)
  then show ?thesis by simp
qed

lemma is_emergency_vehicle_keywords:
  "is_emergency_vehicle vid vtype \<longleftrightarrow>
     (\<exists>kw \<in> {''ambulance'', ''police'', ''fire'', ''emergency'', ''rescue''}.
        str_in kw (lower vid) \<or> str_in kw (lower vtype))"
  by (simp add: is_emergency_vehicle_def emergency_keywords_def Let_def)

lemma vehicles_other_updates [simp]:
  "vehicles_data (update_intersections_data f s) = vehicles_data s"
  "vehicles_data (update_roads_data f s) = vehicles_data s"
  "vehicles_data (update_simulation_stats f s) = vehicles_data s"
  "emergency_vehicles_data (update_intersections_data f s) = emergency_vehicles_data s"
  "emergency_vehicles_data (update_roads_data f s) = emergency_vehicles_data s"
  "emergency_vehicles_data (update_simulation_stats f s) = emergency_vehicles_data s"
  by (simp_all add: update_intersections_data_def update_roads_data_def
        update_simulation_stats_def split: sum.splits)

lemma stats_published:
  assumes "stats_available f"
  shows "\<exists>t a b c. sim_getTime f = Inr t \<and>
     simulation_stats (update_simulation_stats f s) =
       Some \<lparr>currentTime = t, loadedVehicles = a, departedVehicles = b, arrivedVehicles = c,
             activeVehicles = length (vehicles_data s) + length (emergency_vehicles_data s),
             stats_timestamp = time_time f AtStats * 1000\<rparr>"
  using assms
  by (auto simp: stats_available_def succeeded_def update_simulation_stats_def split: sum.splits)

lemma update_simulation_data_active:
  assumes "connected s" and "stats_available f"
  shows "map_option activeVehicles (simulation_stats (update_simulation_data f s))
         = Some (length (vehicles_data (update_simulation_data f s))
                 + length (emergency_vehicles_data (update_simulation_data f s)))"
proof -
  let ?s3 = "update_roads_data f (update_intersections_data f (update_vehicles_data f s))"
  from stats_published [OF assms(2), of ?s3]
  have "map_option activeVehicles (simulation_stats (update_simulation_stats f ?s3))
        = Some (length (vehicles_data ?s3) + length (emergency_vehicles_data ?s3))"
    by auto
  then show ?thesis
    using assms(1) by (simp add: update_simulation_data_def Let_def split: sum.splits)
qed

text \<open>
  Claim C9. When \<^verbatim>\<open>update_vehicles_data\<close> reads the id list, every vehicle it samples
  (an id of the list whose queries the engine answers) is put into exactly one of the two
  published lists: into \<^verbatim>\<open>emergency_vehicles_data\<close> if and only if its lowercased id or
  its lowercased type contains one of \<^verbatim>\<open>ambulance\<close>, \<^verbatim>\<open>police\<close>, \<^verbatim>\<open>fire\<close>,
  \<^verbatim>\<open>emergency\<close>, \<^verbatim>\<open>rescue\<close>, and into \<^verbatim>\<open>vehicles_data\<close> otherwise. The ids of
  \<^verbatim>\<open>vehicles_data\<close>, which the vehicles endpoint returns, are the ids of the engine's
  list that are answered and are not emergency vehicles, in the order of that list, and the
  ids of \<^verbatim>\<open>emergency_vehicles_data\<close> are those that are answered and are emergency
  vehicles; each entry is the record built from the answers for its id; the two lists
  together are as long as the list of answered ids. The statistics published by a cache
  update carry \<^verbatim>\<open>activeVehicles\<close> equal to the sum of the lengths of the two lists of
  the cache.
\<close>

theorem vehicles_partitioned:
  assumes "vehicle_getIDList f = Inr ids"
  shows "map vehicle_id (get_vehicles (update_vehicles_data f s)) =
           filter (\<lambda>vid. case vehicle_get f vid of
                           Inl x \<Rightarrow> False
                         | Inr raw \<Rightarrow> \<not> is_emergency_vehicle vid (veh_type_id raw)) ids
       \<and> map vehicle_id (emergency_vehicles_data (update_vehicles_data f s)) =
           filter (\<lambda>vid. case vehicle_get f vid of
                           Inl x \<Rightarrow> False
                         | Inr raw \<Rightarrow> is_emergency_vehicle vid (veh_type_id raw)) ids
       \<and> (\<forall>vid raw. vid \<in> set ids \<and> vehicle_get f vid = Inr raw \<longrightarrow>
             (vid \<in> set (map vehicle_id (emergency_vehicles_data (update_vehicles_data f s))))
               = is_emergency_vehicle vid (veh_type_id raw)
             \<and> (vid \<in> set (map vehicle_id (get_vehicles (update_vehicles_data f s))))
               = (\<not> is_emergency_vehicle vid (veh_type_id raw)))
       \<and> get_vehicles (update_vehicles_data f s) =
           List.map_filter
             (\<lambda>vid. case vehicle_get f vid of
                      Inl x \<Rightarrow> None
                    | Inr raw \<Rightarrow>
                        if is_emergency_vehicle vid (veh_type_id raw) then None
                        else Some (make_vehicle_data f vid raw)) ids
       \<and> emergency_vehicles_data (update_vehicles_data f s) =
           List.map_filter
             (\<lambda>vid. case vehicle_get f vid of
                      Inl x \<Rightarrow> None
                    | Inr raw \<Rightarrow>
                        if is_emergency_vehicle vid (veh_type_id raw)
                        then Some (make_emergency_data (make_vehicle_data f vid raw) vid
                                     (veh_type_id raw))
                        else None) ids
       \<and> length (get_vehicles (update_vehicles_data f s))
           + length (emergency_vehicles_data (update_vehicles_data f s))
           = length (filter (\<lambda>vid. succeeded (vehicle_get f vid)) ids)
       \<and> (\<forall>vid vtype. is_emergency_vehicle vid vtype \<longleftrightarrow>
             (\<exists>kw \<in> {''ambulance'', ''police'', ''fire'', ''emergency'', ''rescue''}.
                str_in kw (lower vid) \<or> str_in kw (lower vtype)))
       \<and> (connected s \<and> stats_available f \<longrightarrow>
             map_option activeVehicles (simulation_stats (update_simulation_data f s))
             = Some (length (vehicles_data (update_simulation_data f s))
                     + length (emergency_vehicles_data (update_simulation_data f s))))"
proof (intro conjI)
  show "map vehicle_id (get_vehicles (update_vehicles_data f s)) =
           filter (\<lambda>vid. case vehicle_get f vid of
                           Inl x \<Rightarrow> False
                         | Inr raw \<Rightarrow> \<not> is_emergency_vehicle vid (veh_type_id raw)) ids"
    unfolding get_vehicles_def by (rule vehicles_partition_ids(1) [OF assms])
  show "map vehicle_id (emergency_vehicles_data (update_vehicles_data f s)) =
           filter (\<lambda>vid. case vehicle_get f vid of
                           Inl x \<Rightarrow> False
                         | Inr raw \<Rightarrow> is_emergency_vehicle vid (veh_type_id raw)) ids"
    by (rule vehicles_partition_ids(2) [OF assms])
  show "\<forall>vid raw. vid \<in> set ids \<and> vehicle_get f vid = Inr raw \<longrightarrow>
             (vid \<in> set (map vehicle_id (emergency_vehicles_data (update_vehicles_data f s))))
               = is_emergency_vehicle vid (veh_type_id raw)
             \<and> (vid \<in> set (map vehicle_id (get_vehicles (update_vehicles_data f s))))
               = (\<not> is_emergency_vehicle vid (veh_type_id raw))"
    unfolding get_vehicles_def
    using vehicles_partition_members [OF assms] by blast
  show "get_vehicles (update_vehicles_data f s) =
           List.map_filter
             (\<lambda>vid. case vehicle_get f vid of
                      Inl x \<Rightarrow> None
                    | Inr raw \<Rightarrow>
                        if is_emergency_vehicle vid (veh_type_id raw) then None
                        else Some (make_vehicle_data f vid raw)) ids"
    unfolding get_vehicles_def by (rule update_vehicles_data_lists(1) [OF assms])
  show "emergency_vehicles_data (update_vehicles_data f s) =
           List.map_filter
             (\<lambda>vid. case vehicle_get f vid of
                      Inl x \<Rightarrow> None
                    | Inr raw \<Rightarrow>
                        if is_emergency_vehicle vid (veh_type_id raw)
                        then Some (make_emergency_data (make_vehicle_data f vid raw) vid
                                     (veh_type_id raw))
                        else None) ids"
    by (rule update_vehicles_data_lists(2) [OF assms])
  show "length (get_vehicles (update_vehicles_data f s))
           + length (emergency_vehicles_data (update_vehicles_data f s))
           = length (filter (\<lambda>vid. succeeded (vehicle_get f vid)) ids)"
    unfolding get_vehicles_def by (rule vehicles_partition_length [OF assms])
  show "\<forall>vid vtype. is_emergency_vehicle vid vtype \<longleftrightarrow>
             (\<exists>kw \<in> {''ambulance'', ''police'', ''fire'', ''emergency'', ''rescue''}.
                str_in kw (lower vid) \<or> str_in kw (lower vtype))"
    using is_emergency_vehicle_keywords by blast
  show "connected s \<and> stats_available f \<longrightarrow>
             map_option activeVehicles (simulation_stats (update_simulation_data f s))
             = Some (length (vehicles_data (update_simulation_data f s))
                     + length (emergency_vehicles_data (update_simulation_data f s)))"
    using update_simulation_data_active by blast
qed

theorem vehicles_partitioned_witness:
  "vehicle_getIDList mixed_frame = Inr [''veh0'', ''Ambulance_1'', ''veh2'', ''ghost'']
   \<and> vehicle_get mixed_frame ''veh0'' = Inr car_raw
   \<and> vehicle_get mixed_frame ''Ambulance_1'' = Inr car_raw
   \<and> vehicle_get mixed_frame ''veh2'' = Inr (car_raw\<lparr>veh_type_id := ''Police_car''\<rparr>)
   \<and> \<not> succeeded (vehicle_get mixed_frame ''ghost'')
   \<and> map vehicle_id (get_vehicles (update_vehicles_data mixed_frame running_bridge)) = [''veh0'']
   \<and> map vehicle_id (emergency_vehicles_data (update_vehicles_data mixed_frame running_bridge))
       = [''Ambulance_1'', ''veh2'']
   \<and> connected running_bridge \<and> stats_available mixed_frame
   \<and> map_option activeVehicles (simulation_stats (update_simulation_data mixed_frame running_bridge))
       = Some 3"
proof -
  let ?ids = "[''veh0'', ''Ambulance_1'', ''veh2'', ''ghost'']"
  have h: "vehicle_getIDList mixed_frame = Inr ?ids"
    by (simp add: frame_defs)
  have g: "vehicle_get mixed_frame ''veh0'' = Inr car_raw"
    "vehicle_get mixed_frame ''Ambulance_1'' = Inr car_raw"
    "vehicle_get mixed_frame ''veh2'' = Inr (car_raw\<lparr>veh_type_id := ''Police_car''\<rparr>)"
    "vehicle_get mixed_frame ''ghost'' = Inl (Exn TraCIException ''Vehicle ghost is not known'')"
    by (simp_all add: mixed_frame_def quiet_frame_def)
  have e1: "\<not> is_emergency_vehicle ''veh0'' ''passenger''"
    by (simp add: string_defs)
  have e2: "is_emergency_vehicle ''Ambulance_1'' ''passenger''"
    by (simp add: string_defs)
  have e3: "is_emergency_vehicle ''veh2'' ''Police_car''"
    by (simp add: string_defs)
  have c: "connected running_bridge \<and> stats_available mixed_frame"
    by (simp add: frame_defs stats_available_def succeeded_def)
  note t = vehicles_partitioned [OF h, of running_bridge]
  from t have v: "map vehicle_id (get_vehicles (update_vehicles_data mixed_frame running_bridge)) =
           filter (\<lambda>vid. case vehicle_get mixed_frame vid of
                           Inl x \<Rightarrow> False
                         | Inr raw \<Rightarrow> \<not> is_emergency_vehicle vid (veh_type_id raw)) ?ids"
    by (rule conjunct1)
  from t have em: "map vehicle_id (emergency_vehicles_data (update_vehicles_data mixed_frame running_bridge)) =
           filter (\<lambda>vid. case vehicle_get mixed_frame vid of
                           Inl x \<Rightarrow> False
                         | Inr raw \<Rightarrow> is_emergency_vehicle vid (veh_type_id raw)) ?ids"
    by (rule conjunct2 [THEN conjunct1])
  from t c have act:
    "map_option activeVehicles (simulation_stats (update_simulation_data mixed_frame running_bridge))
       = Some (length (vehicles_data (update_simulation_data mixed_frame running_bridge))
               + length (emergency_vehicles_data (update_simulation_data mixed_frame running_bridge)))"
    by blast
  have v': "map vehicle_id (get_vehicles (update_vehicles_data mixed_frame running_bridge)) = [''veh0'']"
    unfolding v using e1 e2 e3 by (simp add: g car_raw_def)
  have em': "map vehicle_id (emergency_vehicles_data (update_vehicles_data mixed_frame running_bridge))
       = [''Ambulance_1'', ''veh2'']"
    unfolding em using e1 e2 e3 by (simp add: g car_raw_def)
  have same: "vehicles_data (update_simulation_data mixed_frame running_bridge)
                = get_vehicles (update_vehicles_data mixed_frame running_bridge)"
     "emergency_vehicles_data (update_simulation_data mixed_frame running_bridge)
                = emergency_vehicles_data (update_vehicles_data mixed_frame running_bridge)"
    using c by (simp_all add: update_simulation_data_def get_vehicles_def Let_def split: sum.splits)
  have n: "length (get_vehicles (update_vehicles_data mixed_frame running_bridge)) = 1"
     "length (emergency_vehicles_data (update_vehicles_data mixed_frame running_bridge)) = 2"
    using arg_cong [OF v', of length] arg_cong [OF em', of length] by simp_all
  have act3:
    "map_option activeVehicles (simulation_stats (update_simulation_data mixed_frame running_bridge))
       = Some 3"
    unfolding act same n by simp
  show ?thesis
    using h c v' em' act3 by (simp add: g succeeded_def)
qed

section \<open>What a snapshot of the cache holds\<close>

text \<open>
  Claim C1 as stated fails, even without a reader that runs between two assignments.
  A vehicle timestamp is the wall clock in milliseconds (\<^verbatim>\<open>time.time() * 1000\<close>) and
  \<^verbatim>\<open>currentTime\<close> is the simulation time in seconds, so after one complete update at
  simulation time 1 the two differ by far more than any tick interval. And the fields of
  the cache are assigned one by one, each by its own update, and
  \<^verbatim>\<open>update_vehicles_data\<close> assigns nothing when the vehicle id list cannot be read:
  after a second update in which that query raises, the cache holds the vehicles of the
  first tick beside the statistics of the second.
\<close>

theorem snapshot_clocks_differ:
  "\<not> within_tick_interval 1000 (update_simulation_data (traffic_frame 1 [''veh0'']) running_bridge)
   \<and> map vehicle_timestamp
        (get_vehicles (update_simulation_data (traffic_frame 1 [''veh0'']) running_bridge))
       = [1700000000000]
   \<and> map_option currentTime
        (simulation_stats (update_simulation_data (traffic_frame 1 [''veh0'']) running_bridge))
       = Some (TNum 1)
   \<and> get_vehicles (update_simulation_data unreadable_frame
          (update_simulation_data (traffic_frame 1 [''veh0'']) running_bridge))
       = get_vehicles (update_simulation_data (traffic_frame 1 [''veh0'']) running_bridge)
   \<and> map_option currentTime
        (simulation_stats (update_simulation_data unreadable_frame
          (update_simulation_data (traffic_frame 1 [''veh0'']) running_bridge)))
       = Some (TNum 2)"
  by (simp add: within_tick_interval_def get_vehicles_def frame_defs update_defs string_defs
        is_connection_error_def)

lemma update_simulation_data_cache:
  assumes c: "connected s"
    and v: "vehicle_getIDList f = Inr ids" and t: "trafficlight_getIDList f = Inr tls_ids"
    and e: "edge_getIDList f = Inr edge_ids"
    and st: "sim_getTime f = Inr now" "sim_getLoadedNumber f = Inr a"
      "sim_getDepartedNumber f = Inr b" "sim_getArrivedNumber f = Inr d"
  shows "get_all_data (update_simulation_data f s) =
          (fst (collect_vehicles f ids [] []),
           List.map_filter (sample_intersection f) tls_ids,
           List.map_filter (sample_road f) (take 50 edge_ids),
           snd (collect_vehicles f ids [] []),
           Some \<lparr>currentTime = now, loadedVehicles = a, departedVehicles = b,
                 arrivedVehicles = d,
                 activeVehicles = length (fst (collect_vehicles f ids [] []))
                                  + length (snd (collect_vehicles f ids [] [])),
                 stats_timestamp = time_time f AtStats * 1000\<rparr>)"
  using assms
  by (simp add: get_all_data_def update_simulation_data_def update_vehicles_data_def
        update_intersections_data_def update_roads_data_def update_simulation_stats_def
        Let_def split: prod.splits sum.splits)

lemma collect_vehicles_timestamps:
  "v \<in> set (fst (collect_vehicles f ids [] [])) \<Longrightarrow>
   vehicle_timestamp v = time_time f (AtVehicle (vehicle_id v)) * 1000"
  by (auto simp: collect_vehicles_acc make_vehicle_data_def List.map_filter_def
        split: sum.splits if_splits)

text \<open>
  Claim C1, amended. After the cache update of a tick, made on a connected bridge, in
  which the engine returns the three id lists and the four values of the statistics, the
  snapshot read from the cache comes from that tick alone: all five fields are determined
  by the frame of the tick, whatever the cache held before; \<^verbatim>\<open>currentTime\<close> is the simulation time of that frame, and every vehicle
  timestamp and the timestamp of the statistics are wall-clock readings of that tick, in
  milliseconds.
\<close>

theorem cache_from_one_frame:
  assumes "connected s" and "connected s'" and "lists_available f" and "stats_available f"
  shows "get_all_data (update_simulation_data f s) = get_all_data (update_simulation_data f s')
       \<and> map_option (\<lambda>st. Inr (currentTime st)) (simulation_stats (update_simulation_data f s))
           = Some (sim_getTime f)
       \<and> map_option stats_timestamp (simulation_stats (update_simulation_data f s))
           = Some (time_time f AtStats * 1000)
       \<and> (\<forall>v \<in> set (get_vehicles (update_simulation_data f s)).
             vehicle_timestamp v = time_time f (AtVehicle (vehicle_id v)) * 1000)"
proof -
  from assms(3) obtain ids tls_ids edge_ids where
    l: "vehicle_getIDList f = Inr ids" "trafficlight_getIDList f = Inr tls_ids"
       "edge_getIDList f = Inr edge_ids"
    by (auto simp: lists_available_def succeeded_def split: sum.splits)
  from assms(4) obtain now a b d where
    q: "sim_getTime f = Inr now" "sim_getLoadedNumber f = Inr a"
       "sim_getDepartedNumber f = Inr b" "sim_getArrivedNumber f = Inr d"
    by (auto simp: stats_available_def succeeded_def split: sum.splits)
  note c1 = update_simulation_data_cache [OF assms(1) l q]
  note c2 = update_simulation_data_cache [OF assms(2) l q]
  have same: "get_all_data (update_simulation_data f s) = get_all_data (update_simulation_data f s')"
    using c1 c2 by simp
  have stats: "simulation_stats (update_simulation_data f s) =
         Some \<lparr>currentTime = now, loadedVehicles = a, departedVehicles = b,
                 arrivedVehicles = d,
                 activeVehicles = length (fst (collect_vehicles f ids [] []))
                                  + length (snd (collect_vehicles f ids [] [])),
                 stats_timestamp = time_time f AtStats * 1000\<rparr>"
    using c1 by (simp add: get_all_data_def)
  have veh: "get_vehicles (update_simulation_data f s) = fst (collect_vehicles f ids [] [])"
    using c1 by (simp add: get_all_data_def get_vehicles_def)
  show ?thesis
    using same stats veh q(1) collect_vehicles_timestamps [of _ f ids] by simp
qed

theorem cache_from_one_frame_witness:
  "connected running_bridge
   \<and> connected (update_simulation_data mixed_frame running_bridge)
   \<and> lists_available (traffic_frame 1 [''veh0''])
   \<and> stats_available (traffic_frame 1 [''veh0''])
   \<and> get_all_data running_bridge \<noteq> get_all_data (update_simulation_data mixed_frame running_bridge)
   \<and> get_all_data (update_simulation_data (traffic_frame 1 [''veh0'']) running_bridge)
       = get_all_data (update_simulation_data (traffic_frame 1 [''veh0''])
           (update_simulation_data mixed_frame running_bridge))
   \<and> map vehicle_timestamp
        (get_vehicles (update_simulation_data (traffic_frame 1 [''veh0'']) running_bridge))
       = [1700000000000]"
proof -
  have h1: "connected running_bridge"
    by (simp add: frame_defs)
  have h2: "connected (update_simulation_data mixed_frame running_bridge)"
    by (simp add: frame_defs update_defs split: prod.splits)
  have h3: "lists_available (traffic_frame 1 [''veh0''])"
    by (simp add: frame_defs lists_available_def succeeded_def)
  have h4: "stats_available (traffic_frame 1 [''veh0''])"
    by (simp add: frame_defs stats_available_def succeeded_def)
  have d: "get_all_data running_bridge
             \<noteq> get_all_data (update_simulation_data mixed_frame running_bridge)"
    by (simp add: get_all_data_def frame_defs update_defs string_defs)
  have ts: "map vehicle_timestamp
        (get_vehicles (update_simulation_data (traffic_frame 1 [''veh0'']) running_bridge))
       = [1700000000000]"
    by (simp add: get_vehicles_def frame_defs update_defs string_defs)
  from cache_from_one_frame [OF h1 h2 h3 h4]
  show ?thesis
    using h1 h2 h3 h4 d ts by simp
qed


section \<open>The polling loop and the simulation time\<close>

lemmas loop_defs = update_data_loop_def loop_iteration_def tick_def advance_simulation_def
  progress_report_def thread_exit_def tick_at_def tick_failing_def loop_outcome_def
  is_connection_error_def

text \<open>
  Claim C4 as stated fails: the loop keeps no stall counter. Its only variables are
  \<^verbatim>\<open>update_count\<close> and \<^verbatim>\<open>last_time\<close>. Two runs of two ticks each, the first with
  the simulation times 5 and 5 (the second tick stalls: the counter of the specification
  is 1), the second with the times 4 and 5 (no stall: the counter is 0), end with the same
  status, the same bridge and the same local variables, so no part of the state of the
  loop is that counter. All that a stall leaves is a warning in the log.
\<close>

theorem loop_keeps_no_stall_counter:
  "loop_outcome (update_data_loop [tick_at 5, tick_at 5] running_bridge)
     = loop_outcome (update_data_loop [tick_at 4, tick_at 5] running_bridge)
   \<and> spec_stall_counter (- 1) 0 [5, 5] = 1
   \<and> spec_stall_counter (- 1) 0 [4, 5] = 0"
  by (simp add: loop_defs frame_defs update_defs)

text \<open>
  Claim C4, amended. The polling loop tracks the last observed simulation time in
  \<^verbatim>\<open>last_time\<close>. In a tick of the running loop in which no call raises, if the time
  after the step exceeds \<^verbatim>\<open>last_time\<close> it becomes the new \<^verbatim>\<open>last_time\<close>; otherwise
  \<^verbatim>\<open>last_time\<close> is unchanged and the warning that the time does not advance is logged.
  In both cases the cache is updated and the loop goes on with the next tick: a stall
  never halts the loop. No count of stalls is kept or reset.
\<close>

theorem stall_only_logged:
  assumes "\<not> stop_updates s" and "connected s" and "simulation_running s"
    and "fst (tick e s l) = None" and "sim_getTime (post e) = Inr t"
  shows "loop_iteration e s l =
           (Looping, update_simulation_data (post e) s,
            \<lparr>update_count = Suc (update_count l),
             last_time = (if safe_float t > last_time l then safe_float t else last_time l)\<rparr>,
            (if safe_float t > last_time l then [] else [TimeNotAdvancing (safe_float t)]))"
  using assms
  by (auto simp: loop_iteration_def tick_def advance_simulation_def Let_def
        split: sum.splits prod.splits option.splits if_splits)

theorem stall_only_logged_witness:
  "\<not> stop_updates running_bridge \<and> connected running_bridge \<and> simulation_running running_bridge
   \<and> fst (tick (tick_at 5) running_bridge \<lparr>update_count = 1, last_time = 5\<rparr>) = None
   \<and> sim_getTime (post (tick_at 5)) = Inr (TNum 5)
   \<and> fst (loop_iteration (tick_at 5) running_bridge \<lparr>update_count = 1, last_time = 5\<rparr>) = Looping
   \<and> snd (snd (loop_iteration (tick_at 5) running_bridge \<lparr>update_count = 1, last_time = 5\<rparr>))
       = (\<lparr>update_count = 2, last_time = 5\<rparr>, [TimeNotAdvancing 5])
   \<and> fst (update_data_loop [tick_at 5, tick_at 5, tick_at 5, tick_at 5, tick_at 6] running_bridge)
       = Looping
   \<and> snd (snd (update_data_loop [tick_at 5, tick_at 5, tick_at 5, tick_at 5, tick_at 6]
                 running_bridge))
       = (\<lparr>update_count = 5, last_time = 6\<rparr>,
          [TimeNotAdvancing 5, TimeNotAdvancing 5, TimeNotAdvancing 5])"
proof -
  have h1: "\<not> stop_updates running_bridge" and h2: "connected running_bridge"
    and h3: "simulation_running running_bridge"
    by (simp_all add: frame_defs)
  have h4: "fst (tick (tick_at 5) running_bridge \<lparr>update_count = 1, last_time = 5\<rparr>) = None"
    by (simp add: loop_defs frame_defs)
  have h5: "sim_getTime (post (tick_at 5)) = Inr (TNum 5)"
    by (simp add: loop_defs frame_defs)
  have run: "fst (update_data_loop [tick_at 5, tick_at 5, tick_at 5, tick_at 5, tick_at 6]
                   running_bridge) = Looping
     \<and> snd (snd (update_data_loop [tick_at 5, tick_at 5, tick_at 5, tick_at 5, tick_at 6]
                 running_bridge))
       = (\<lparr>update_count = 5, last_time = 6\<rparr>,
          [TimeNotAdvancing 5, TimeNotAdvancing 5, TimeNotAdvancing 5])"
    by (simp add: loop_defs frame_defs update_defs)
  from stall_only_logged [OF h1 h2 h3 h4 h5]
  show ?thesis
    using h1 h2 h3 h4 h5 run by simp
qed


section \<open>Overriding a traffic light\<close>

text \<open>
  Claim C2 as stated fails: \<^verbatim>\<open>override_traffic_light\<close> never looks at the cache. On
  a connected bridge whose cached snapshot holds no intersection at all, the override of
  \<^verbatim>\<open>J1\<close> sends both calls to an engine that accepts them and returns success; with an
  engine that does not know the light, the route still sends \<^verbatim>\<open>getProgram\<close> to the
  engine and answers with the plain failure of status 200.
\<close>

theorem override_ignores_cache:
  "''J1'' \<notin> set (map intersection_id (intersections_data running_bridge))
   \<and> override_traffic_light accepting_engine ''J1'' ''green'' world0 running_bridge
       = (True,
          world0\<lparr>traci_log := [TGetProgram ''J1'', TSetRedYellowGreenState ''J1'' ''GGGG'']\<rparr>,
          running_bridge)
   \<and> route_override_traffic_light rejecting_engine
         (Some \<lparr>intersectionId = ''J1'', phase = None\<rparr>) world0 running_bridge
       = (Reply 200 False, world0\<lparr>traci_log := [TGetProgram ''J1'']\<rparr>, running_bridge)"
  by (simp add: override_traffic_light_def route_override_traffic_light_def ask_def finish_def
        traci_issue_def accepting_engine_def rejecting_engine_def world0_def frame_defs
        phase_mapping_def eval_nat_numeral)

text \<open>
  Claim C2, amended. An override does not consult the cached snapshot. On a bridge that
  is not connected it returns failure without any call to the engine. On a connected
  bridge it sends \<^verbatim>\<open>getProgram\<close> for the target id and, if that returns,
  \<^verbatim>\<open>setRedYellowGreenState\<close>, whether or not the id is in the cached snapshot; it
  returns success exactly when the engine accepts both calls and failure otherwise. It
  never changes the bridge, so the next cache update starts from the same bridge state
  whatever the outcome of the command.
\<close>

theorem override_behaviour:
  "(\<not> connected s \<longrightarrow> override_traffic_light e i p w s = (False, w, s))
   \<and> (connected s \<longrightarrow>
        traci_log (fst (snd (override_traffic_light e i p w s)))
          = traci_log w @ TGetProgram i #
              (if succeeded (getProgram_reply e i)
               then [TSetRedYellowGreenState i (concat (replicate 4 (phase_mapping p)))] else [])
        \<and> fst (override_traffic_light e i p w s)
          = (succeeded (getProgram_reply e i)
             \<and> succeeded (setState_reply e i (concat (replicate 4 (phase_mapping p))))))
   \<and> snd (snd (override_traffic_light e i p w s)) = s
   \<and> fst (override_traffic_light e i p w (s\<lparr>intersections_data := xs\<rparr>))
       = fst (override_traffic_light e i p w s)
   \<and> fst (snd (override_traffic_light e i p w (s\<lparr>intersections_data := xs\<rparr>)))
       = fst (snd (override_traffic_light e i p w s))
   \<and> update_simulation_data f (snd (snd (override_traffic_light e i p w s)))
       = update_simulation_data f s"
  by (cases "getProgram_reply e i";
      cases "setState_reply e i (concat (replicate 4 (phase_mapping p)))")
     (simp_all add: override_traffic_light_def ask_def finish_def traci_issue_def succeeded_def
        Let_def)

theorem override_behaviour_witness:
  "connected running_bridge
   \<and> override_traffic_light accepting_engine ''J1'' ''red'' world0 running_bridge
       = (True,
          world0\<lparr>traci_log := [TGetProgram ''J1'', TSetRedYellowGreenState ''J1'' ''rrrr'']\<rparr>,
          running_bridge)
   \<and> \<not> connected (init_bridge ''localhost'' 8813 8814)
   \<and> override_traffic_light accepting_engine ''J1'' ''red'' world0
         (init_bridge ''localhost'' 8813 8814)
       = (False, world0, init_bridge ''localhost'' 8813 8814)"
proof -
  have c: "connected running_bridge" "\<not> connected (init_bridge ''localhost'' 8813 8814)"
    by (simp_all add: frame_defs)
  have r: "override_traffic_light accepting_engine ''J1'' ''red'' world0 running_bridge
       = (True,
          world0\<lparr>traci_log := [TGetProgram ''J1'', TSetRedYellowGreenState ''J1'' ''rrrr'']\<rparr>,
          running_bridge)"
    by (simp add: override_traffic_light_def ask_def finish_def traci_issue_def
          accepting_engine_def world0_def frame_defs phase_mapping_def eval_nat_numeral)
  from override_behaviour [of "init_bridge ''localhost'' 8813 8814" accepting_engine "''J1''"
        "''red''" world0]
    override_behaviour [of running_bridge accepting_engine "''J1''" "''red''" world0]
  show ?thesis
    using c r by simp
qed


section \<open>Connection errors in the polling loop\<close>

lemma loop_iteration_raise:
  assumes "\<not> stop_updates s" and "connected s" and "tick e s l = (Some x, s', l', lg)"
  shows "loop_iteration e s l =
          (if is_connection_error x
           then (HaltedByError x, s'\<lparr>connected := False, simulation_running := False\<rparr>, l',
                 lg @ [LoopError x, ConnectionLost])
           else (Looping, s', l', lg @ [LoopError x]))"
  using assms by (simp add: loop_iteration_def)

lemma loop_iteration_halted:
  assumes "loop_iteration e s l = (HaltedByError y, s', l', lg)"
  shows "is_connection_error y \<and> \<not> connected s' \<and> \<not> simulation_running s'
       \<and> \<not> stop_updates s \<and> connected s \<and> fst (tick e s l) = Some y"
  using assms
  by (auto simp: loop_iteration_def split: if_splits prod.splits option.splits)

lemma run_loop_halted:
  "run_loop es s l lg = (HaltedByError y, s', l', lg') \<Longrightarrow>
   is_connection_error y \<and> \<not> connected s' \<and> \<not> simulation_running s'"
proof (induction es arbitrary: s l lg)
  case Nil
  then show ?case by simp
next
  case (Cons e es)
  obtain st s1 l1 lg1 where i: "loop_iteration e s l = (st, s1, l1, lg1)"
    by (cases "loop_iteration e s l") auto
  show ?case
  proof (cases st)
    case Looping
    with i Cons.prems have "run_loop es s1 l1 (lg @ lg1) = (HaltedByError y, s', l', lg')"
      by simp
    then show ?thesis by (rule Cons.IH)
  next
    case ExitedByCondition
    with i Cons.prems show ?thesis by simp
  next
    case (HaltedByError z)
    with i Cons.prems have "z = y" "s1 = s'" by simp_all
    with i HaltedByError loop_iteration_halted [of e s l y s' l1 lg1] show ?thesis by simp
  qed
qed

lemma update_data_loop_halted:
  assumes "update_data_loop es s = (HaltedByError y, s', l', lg')"
  shows "is_connection_error y \<and> \<not> connected s' \<and> \<not> simulation_running s' \<and> \<not> thread_running s'"
proof -
  obtain st s1 l1 lg1 where r: "run_loop es s \<lparr>update_count = 0, last_time = - 1\<rparr> [] = (st, s1, l1, lg1)"
    by (cases "run_loop es s \<lparr>update_count = 0, last_time = - 1\<rparr> []") auto
  with assms have st: "st = HaltedByError y" and s': "s' = thread_exit s1"
    by (auto simp: update_data_loop_def split: if_splits)
  from run_loop_halted [of es s _ "[]" y s1 l1 lg1] r st
  have "is_connection_error y \<and> \<not> connected s1 \<and> \<not> simulation_running s1" by simp
  then show ?thesis
    using s' by (auto simp: thread_exit_def thread_running_def split: option.splits)
qed

lemma query_all_threads [simp]: "threads_started (query_all qs w) = threads_started w"
  by (induction qs arbitrary: w) (auto simp: traci_issue_def)

lemma terminate_process_thread:
  "thread_running (snd (terminate_process e p w s)) = thread_running s
   \<and> connected (snd (terminate_process e p w s)) = connected s
   \<and> threads_started (fst (terminate_process e p w s)) = threads_started w"
  by (simp add: terminate_process_def Let_def send_signal_def split: sum.splits wait_result.splits)

lemma idle_request_keeps_idle:
  assumes "\<not> connected s" and "\<not> thread_running s" and "\<not> is_connect_request r"
  shows "\<not> connected (snd (handle_request e r w s))
       \<and> \<not> thread_running (snd (handle_request e r w s))
       \<and> threads_started (fst (handle_request e r w s)) = threads_started w"
proof (cases r)
  case StopSumo
  show ?thesis
  proof (cases "sumo_process s")
    case None
    with assms StopSumo show ?thesis
      by (simp add: handle_request_def stop_sumo_process_def)
  next
    case (Some p)
    with assms StopSumo terminate_process_thread [of "env_stop e" p w s] show ?thesis
      by (simp add: handle_request_def stop_sumo_process_def)
  qed
next
  case Disconnect
  with assms show ?thesis
    by (simp add: handle_request_def disconnect_from_sumo_def stop_data_updates_def Let_def)
next
  case (CommandTrafficLight body)
  with assms show ?thesis
    by (cases body)
       (simp_all add: handle_request_def route_override_traffic_light_def
          override_traffic_light_def)
qed (use assms in \<open>simp_all add: handle_request_def\<close>)

lemma tick_raises_iff: "fst (tick e s l) = None \<longleftrightarrow> loop_calls_succeed e s l"
  by (auto simp: tick_def advance_simulation_def progress_report_def loop_calls_succeed_def
        succeeded_def Let_def split: sum.splits prod.splits option.splits if_splits)

text \<open>
  Claim C3 as stated fails. The handler of the loop does not look at the class of an
  exception, only at its text. When the engine goes away, the call during which this
  happens raises \<^verbatim>\<open>FatalTraCIError("connection closed by SUMO")\<close>, here inside
  \<^verbatim>\<open>update_vehicles_data\<close>, which catches it, and every later call raises
  \<^verbatim>\<open>FatalTraCIError("Not connected.")\<close>, a text that contains neither
  \<^verbatim>\<open>connection\<close> nor \<^verbatim>\<open>socket\<close>: the ticks that follow fail, the loop logs the error,
  sleeps and tries again, and the bridge stays marked connected and running. In the other
  direction, the error of a rejected command whose text contains \<^verbatim>\<open>socket\<close> halts
  the loop and marks the bridge disconnected.
\<close>

theorem connection_loss_keeps_looping:
  "spec_connection_error not_connected
   \<and> fst (update_data_loop lost_run running_bridge) = Looping
   \<and> connected (fst (snd (update_data_loop lost_run running_bridge)))
   \<and> simulation_running (fst (snd (update_data_loop lost_run running_bridge)))
   \<and> snd (snd (snd (update_data_loop lost_run running_bridge)))
       = [LoopError not_connected, LoopError not_connected, LoopError not_connected]
   \<and> \<not> spec_connection_error unknown_vehicle
   \<and> fst (update_data_loop [tick_failing unknown_vehicle] running_bridge)
       = HaltedByError unknown_vehicle
   \<and> \<not> connected (fst (snd (update_data_loop [tick_failing unknown_vehicle] running_bridge)))"
  by (simp add: spec_connection_error_def not_connected_def unknown_vehicle_def lost_run_def
        tick_not_connected_def closed_frame_def closing_frame_def tick_failing_def
        loop_defs frame_defs update_defs string_defs)

text \<open>
  Claim C3, amended. The handlers classify an exception by its text alone, whatever its
  class: the test is that the text, in lower case, contains \<^verbatim>\<open>connection\<close> or
  \<^verbatim>\<open>socket\<close>. A tick fails, that is, an exception reaches the handler of the loop,
  exactly when one of the calls that the body of the loop issues itself raises (the two
  queries before the step, the step and the query of the time after it when the simulation
  is running, the two queries of the progress report on every tenth tick); an exception
  raised inside \<^verbatim>\<open>update_simulation_data\<close> never fails the tick. Whenever a tick of the
  running loop fails with an exception whose text passes the test, the loop leaves with
  \<^verbatim>\<open>break\<close> and \<^verbatim>\<open>connected\<close> and \<^verbatim>\<open>simulation_running\<close> are false; a tick
  that fails with any other exception does not stop the loop. When
  \<^verbatim>\<open>getMinExpectedNumber\<close> inside \<^verbatim>\<open>update_simulation_data\<close> raises an exception
  whose text passes the test, the two flags are cleared as well, and an iteration that
  begins with \<^verbatim>\<open>connected\<close> false ends the loop at its test. Whenever a run of the loop
  is halted by an exception, the text of that exception passes the test, the two flags are
  false and the update thread is no longer alive. From such a state (not connected, no
  live update thread) no request other than the connecting ones (\<^verbatim>\<open>/connect\<close>,
  \<^verbatim>\<open>/start-sumo\<close>, \<^verbatim>\<open>/start-sumo-full\<close>) starts a thread: the bridge stays
  disconnected and without a live update thread, so the property also holds after any
  sequence of such requests.
\<close>

theorem connection_error_halts_loop:
  "is_connection_error (Exn c t) = is_connection_error (Exn c' t)
   \<and> (fst (tick e s l) = None \<longleftrightarrow> loop_calls_succeed e s l)
   \<and> (\<not> stop_updates s \<and> connected s \<and> fst (tick e s l) = Some x \<longrightarrow>
      (if is_connection_error x
       then fst (loop_iteration e s l) = HaltedByError x
            \<and> \<not> connected (fst (snd (loop_iteration e s l)))
            \<and> \<not> simulation_running (fst (snd (loop_iteration e s l)))
       else fst (loop_iteration e s l) = Looping))
   \<and> (connected s \<and> sim_getMinExpectedNumber f = Inl x \<and> is_connection_error x \<longrightarrow>
        \<not> connected (update_simulation_data f s)
        \<and> \<not> simulation_running (update_simulation_data f s))
   \<and> (\<not> connected s \<longrightarrow> loop_iteration e s l = (ExitedByCondition, s, l, []))
   \<and> (fst (update_data_loop es s0) = HaltedByError y \<longrightarrow>
        is_connection_error y
        \<and> \<not> connected (fst (snd (update_data_loop es s0)))
        \<and> \<not> simulation_running (fst (snd (update_data_loop es s0)))
        \<and> \<not> thread_running (fst (snd (update_data_loop es s0))))
   \<and> (\<not> connected s1 \<and> \<not> thread_running s1 \<and> \<not> is_connect_request r \<longrightarrow>
        \<not> connected (snd (handle_request re r w s1))
        \<and> \<not> thread_running (snd (handle_request re r w s1))
        \<and> threads_started (fst (handle_request re r w s1)) = threads_started w)"
proof (intro conjI impI)
  show "is_connection_error (Exn c t) = is_connection_error (Exn c' t)"
    by (simp add: is_connection_error_def)
next
  show "fst (tick e s l) = None \<longleftrightarrow> loop_calls_succeed e s l"
    by (rule tick_raises_iff)
next
  assume a: "\<not> stop_updates s \<and> connected s \<and> fst (tick e s l) = Some x"
  obtain s' l' lg where t: "tick e s l = (Some x, s', l', lg)"
    using a by (cases "tick e s l") auto
  from a loop_iteration_raise [OF _ _ t]
  show "if is_connection_error x
       then fst (loop_iteration e s l) = HaltedByError x
            \<and> \<not> connected (fst (snd (loop_iteration e s l)))
            \<and> \<not> simulation_running (fst (snd (loop_iteration e s l)))
       else fst (loop_iteration e s l) = Looping"
    by simp
next
  assume a: "connected s \<and> sim_getMinExpectedNumber f = Inl x \<and> is_connection_error x"
  then show "\<not> connected (update_simulation_data f s)"
    and "\<not> simulation_running (update_simulation_data f s)"
    by (simp_all add: update_simulation_data_def Let_def)
next
  assume "\<not> connected s"
  then show "loop_iteration e s l = (ExitedByCondition, s, l, [])"
    by (simp add: loop_iteration_def)
next
  assume a: "fst (update_data_loop es s0) = HaltedByError y"
  obtain s' l' lg' where u: "update_data_loop es s0 = (HaltedByError y, s', l', lg')"
    using a by (cases "update_data_loop es s0") auto
  from update_data_loop_halted [OF u] u
  show "is_connection_error y"
    and "\<not> connected (fst (snd (update_data_loop es s0)))"
    and "\<not> simulation_running (fst (snd (update_data_loop es s0)))"
    and "\<not> thread_running (fst (snd (update_data_loop es s0)))"
    by simp_all
next
  assume a: "\<not> connected s1 \<and> \<not> thread_running s1 \<and> \<not> is_connect_request r"
  then have "\<not> connected s1" "\<not> thread_running s1" "\<not> is_connect_request r" by simp_all
  from idle_request_keeps_idle [OF this, of re w]
  show "\<not> connected (snd (handle_request re r w s1))"
    and "\<not> thread_running (snd (handle_request re r w s1))"
    and "threads_started (fst (handle_request re r w s1)) = threads_started w"
    by simp_all
qed

lemma halted_bridge_eval:
  "fst (update_data_loop
         [tick_at 1, tick_failing (Exn FatalTraCIError ''Connection closed by SUMO'')]
         running_bridge)
     = HaltedByError (Exn FatalTraCIError ''Connection closed by SUMO'')
   \<and> \<not> connected halted_bridge \<and> \<not> simulation_running halted_bridge
   \<and> update_thread halted_bridge = Some (Thread False)
   \<and> stop_updates halted_bridge = False \<and> sumo_process halted_bridge = None"
  by (simp add: halted_bridge_def loop_defs frame_defs update_defs string_defs)

lemma connect_example:
  "thread_running (snd (handle_request request_env0 Connect world_app halted_bridge))
   \<and> connected (snd (handle_request request_env0 Connect world_app halted_bridge))
   \<and> threads_started (fst (handle_request request_env0 Connect world_app halted_bridge)) = 2
   \<and> cwd (fst (handle_request request_env0 Connect world_app halted_bridge)) = ''/srv''"
  using halted_bridge_eval
  by (simp add: handle_request_def connect_to_sumo_def connect_body_def handshake_def ask_def
        finish_def traci_issue_def chdir_def getcwd_def remove_dirs_def path_join_def
        dirname_def basename_def start_data_updates_def thread_running_def request_env0_def
        connect_env_ok_def world_app_def quiet_frame_def Let_def succeeded_def)

theorem connection_error_halts_loop_witness:
  "is_connection_error (Exn FatalTraCIError ''Connection closed by SUMO'')
   \<and> is_connection_error (Exn OtherException ''Connection closed by SUMO'')
   \<and> \<not> is_connection_error (Exn TraCIException ''Vehicle veh0 is not known'')
   \<and> loop_calls_succeed \<lparr>pre = quiet_frame, step_reply = Inr (), post = closing_frame\<rparr>
        running_bridge \<lparr>update_count = 0, last_time = - 1\<rparr>
   \<and> fst (tick \<lparr>pre = quiet_frame, step_reply = Inr (), post = closing_frame\<rparr>
            running_bridge \<lparr>update_count = 0, last_time = - 1\<rparr>) = None
   \<and> fst (loop_iteration (tick_failing (Exn FatalTraCIError ''Connection closed by SUMO''))
            running_bridge \<lparr>update_count = 0, last_time = - 1\<rparr>)
       = HaltedByError (Exn FatalTraCIError ''Connection closed by SUMO'')
   \<and> fst (loop_iteration (tick_failing (Exn TraCIException ''Vehicle veh0 is not known''))
            running_bridge \<lparr>update_count = 0, last_time = - 1\<rparr>) = Looping
   \<and> fst (update_data_loop
            [tick_at 1, tick_failing (Exn FatalTraCIError ''Connection closed by SUMO'')]
            running_bridge)
       = HaltedByError (Exn FatalTraCIError ''Connection closed by SUMO'')
   \<and> \<not> connected halted_bridge \<and> \<not> simulation_running halted_bridge
   \<and> \<not> thread_running halted_bridge
   \<and> \<not> connected (update_simulation_data
          (quiet_frame\<lparr>sim_getMinExpectedNumber :=
             Inl (Exn FatalTraCIError ''Connection closed by SUMO'')\<rparr>)
          running_bridge)
   \<and> fst (loop_iteration (tick_at 2) halted_bridge \<lparr>update_count = 2, last_time = 1\<rparr>)
       = ExitedByCondition
   \<and> \<not> thread_running (snd (handle_request request_env0 ResumeSimulation world_app halted_bridge))
   \<and> threads_started (fst (handle_request request_env0 ResumeSimulation world_app halted_bridge))
       = threads_started world_app
   \<and> thread_running (snd (handle_request request_env0 Connect world_app halted_bridge))"
proof -
  let ?C = "Exn FatalTraCIError ''Connection closed by SUMO''"
  let ?V = "Exn TraCIException ''Vehicle veh0 is not known''"
  let ?l = "\<lparr>update_count = 0, last_time = - 1\<rparr>"
  let ?f = "quiet_frame\<lparr>sim_getMinExpectedNumber := Inl ?C\<rparr>"
  let ?q = "\<lparr>pre = quiet_frame, step_reply = Inr (), post = closing_frame\<rparr>"
  have cC: "is_connection_error ?C" and cV: "\<not> is_connection_error ?V"
    by (simp_all add: is_connection_error_def string_defs)
  have rb: "\<not> stop_updates running_bridge \<and> connected running_bridge"
    by (simp add: frame_defs)
  have tC: "fst (tick (tick_failing ?C) running_bridge ?l) = Some ?C"
    and tV: "fst (tick (tick_failing ?V) running_bridge ?l) = Some ?V"
    by (simp_all add: tick_def advance_simulation_def tick_failing_def frame_defs)
  have fm: "sim_getMinExpectedNumber ?f = Inl ?C"
    by simp
  have calls: "loop_calls_succeed ?q running_bridge ?l"
    by (simp add: loop_calls_succeed_def succeeded_def closing_frame_def closed_frame_def
          frame_defs)
  note hb = halted_bridge_eval
  have idle: "\<not> connected halted_bridge \<and> \<not> thread_running halted_bridge
                \<and> \<not> is_connect_request ResumeSimulation"
    using hb by (simp add: thread_running_def)
  have run: "fst (update_data_loop [tick_at 1, tick_failing ?C] running_bridge) = HaltedByError ?C"
    using hb by simp
  note A = connection_error_halts_loop
             [where s = running_bridge and e = "tick_failing ?C" and l = ?l and x = ?C
                and f = ?f and es = "[tick_at 1, tick_failing ?C]" and ?s0.0 = running_bridge
                and y = ?C and ?s1.0 = halted_bridge and r = ResumeSimulation
                and re = request_env0 and w = world_app and c = FatalTraCIError
                and c' = OtherException and t = "''Connection closed by SUMO''"]
  note B = connection_error_halts_loop
             [where s = running_bridge and e = "tick_failing ?V" and l = ?l and x = ?V]
  note C = connection_error_halts_loop
             [where s = halted_bridge and e = "tick_at 2"
                and l = "\<lparr>update_count = 2, last_time = 1\<rparr>"]
  note D = connection_error_halts_loop [where s = running_bridge and e = ?q and l = ?l]
  note rest = conjunct2 [THEN conjunct2]
  from A [THEN conjunct1] cC
  have a0: "is_connection_error (Exn OtherException ''Connection closed by SUMO'')"
    by simp
  from D [THEN conjunct2, THEN conjunct1] calls
  have d1: "fst (tick ?q running_bridge ?l) = None"
    by simp
  from A [THEN rest, THEN conjunct1] rb tC cC have a1:
    "fst (loop_iteration (tick_failing ?C) running_bridge ?l) = HaltedByError ?C"
    by simp
  from B [THEN rest, THEN conjunct1] rb tV cV have b1:
    "fst (loop_iteration (tick_failing ?V) running_bridge ?l) = Looping"
    by simp
  from A [THEN rest, THEN conjunct2, THEN conjunct1] rb fm cC
  have a2: "\<not> connected (update_simulation_data ?f running_bridge)"
    by simp
  from C [THEN rest, THEN conjunct2, THEN conjunct2, THEN conjunct1] idle have c1:
    "fst (loop_iteration (tick_at 2) halted_bridge \<lparr>update_count = 2, last_time = 1\<rparr>)
       = ExitedByCondition"
    by simp
  from A [THEN rest, THEN conjunct2, THEN conjunct2, THEN conjunct2, THEN conjunct2] idle have a3:
    "\<not> thread_running (snd (handle_request request_env0 ResumeSimulation world_app halted_bridge))
     \<and> threads_started (fst (handle_request request_env0 ResumeSimulation world_app halted_bridge))
       = threads_started world_app"
    by simp
  from A [THEN rest, THEN conjunct2, THEN conjunct2, THEN conjunct2, THEN conjunct1] run have a4:
    "\<not> connected (fst (snd (update_data_loop [tick_at 1, tick_failing ?C] running_bridge)))"
    by simp
  show ?thesis
    using cC cV a0 calls d1 a1 b1 run hb idle a2 c1 a3 a4 connect_example by simp
qed

end
